theory Spec2Isabelle
  imports Main "HOL-Library.Word"
begin

unbundle bit_operations_syntax

section \<open>The procedural bridge of \<^verbatim>\<open>src/main.cpp\<close>\<close>

text \<open>
  The file \<^verbatim>\<open>src/main.cpp\<close> is a renderer plugin: the class \<^verbatim>\<open>PythonDso\<close> resolves a
  script, loads it as a Python module and drives the calls \<^verbatim>\<open>Init\<close>, \<^verbatim>\<open>NumNodes\<close>,
  \<^verbatim>\<open>GetNode\<close> and \<^verbatim>\<open>Cleanup\<close> of that module; four exported functions forward the
  renderer's callbacks to it.

  The embedding is shallow. Everything the C++ reads from outside (the process environment,
  the file system, the Python runtime, the script and the renderer) is a field of the
  record \<open>env\<close>; everything it changes (the Python error indicator, the renderer's log, the
  reference counts it touches, the bridges it allocates) is a field of the record \<open>world\<close>,
  passed through every call. A \<^verbatim>\<open>PyObject*\<close> is an \<open>option\<close>, \<open>None\<close> being the null pointer.
  Handing a null pointer to a macro or function of the Python C API that reads through it
  is the outcome \<open>Fault NullDereference\<close>: the API documents that such arguments are not
  checked. A call of \<^verbatim>\<open>PyErr_Print\<close> on a pending \<^verbatim>\<open>SystemExit\<close> is the outcome
  \<open>ProcessExit\<close>: the API then ends the process. The lock pair \<^verbatim>\<open>PyGILState_Ensure\<close>/\<^verbatim>\<open>PyGILState_Release\<close> that brackets each
  method has no effect on a single thread of calls and is left out.
\<close>

subsection \<open>\<^verbatim>\<open>std::string\<close> operations\<close>

text \<open>\<^verbatim>\<open>s.find(c, pos)\<close>: the first index at or after \<open>pos\<close> holding \<open>c\<close>; \<open>None\<close> is \<^verbatim>\<open>npos\<close>.\<close>

definition str_find :: "string \<Rightarrow> char \<Rightarrow> nat \<Rightarrow> nat option" where
  "str_find s c pos =
     (if c \<in> set (drop pos s)
      then Some (pos + length (takeWhile (\<lambda>x. x \<noteq> c) (drop pos s)))
      else None)"

text \<open>\<^verbatim>\<open>s.find_last_of(chars)\<close>: the last index holding one of \<open>chars\<close>.\<close>

definition find_last_of :: "string \<Rightarrow> string \<Rightarrow> nat option" where
  "find_last_of s chars =
     (if list_ex (\<lambda>c. c \<in> set chars) s
      then Some (length s - 1 - length (takeWhile (\<lambda>c. c \<notin> set chars) (rev s)))
      else None)"

text \<open>
  \<^verbatim>\<open>s.substr(pos, n)\<close> and \<^verbatim>\<open>s.substr(pos)\<close>. The C++ throws when \<open>pos\<close> exceeds the
  length; every call below has \<open>pos\<close> at most the length (it is \<open>0\<close>, \<open>1\<close> on a string of
  two characters or more, or one past an index that \<open>find\<close> returned).
\<close>

definition substr :: "string \<Rightarrow> nat \<Rightarrow> nat \<Rightarrow> string" where
  "substr s pos n = take n (drop pos s)"

definition substr_from :: "string \<Rightarrow> nat \<Rightarrow> string" where
  "substr_from s pos = drop pos s"

subsection \<open>Python values, the script and the world outside\<close>

text \<open>
  The Python 2 objects a script can hand back. \<open>PyInt\<close> is an \<^verbatim>\<open>int\<close> or a \<^verbatim>\<open>long\<close>.
  \<open>PyOpaque\<close> stands for any other object (a dictionary, a list): it is neither a number,
  a string nor a tuple.
\<close>

datatype pyval =
    PyInt int
  | PyString string
  | PyUnicode string
  | PyTuple "pyval list"
  | PyNone
  | PyOpaque nat

text \<open>
  A callable attribute maps its arguments to its result, \<open>None\<close> when the call raises
  (or the attribute cannot be called). A loaded script module maps an attribute name to
  the callable, \<open>None\<close> when the module has no such attribute. \<^verbatim>\<open>imp.load_source\<close> maps
  the module name and the file to the loaded module, \<open>None\<close> when loading raises; the
  \<^verbatim>\<open>imp\<close> module is its \<^verbatim>\<open>load_source\<close> attribute, if it has one.
\<close>

type_synonym pyfunc = "pyval list \<Rightarrow> pyval option"
type_synonym pymodule = "string \<Rightarrow> pyfunc option"
type_synonym load_source_fn = "string \<Rightarrow> string \<Rightarrow> pymodule option"
type_synonym imp_module = "load_source_fn option"

text \<open>
  The kinds of exception that the program can tell apart by what happens next:
  \<^verbatim>\<open>PyErr_Print\<close> ends the process on a pending \<^verbatim>\<open>SystemExit\<close> (what \<^verbatim>\<open>sys.exit()\<close> raises) and
  prints any other exception.
\<close>

datatype pyexc = SystemExit | OtherException

text \<open>
  The field \<^verbatim>\<open>st_mode\<close> that \<^verbatim>\<open>stat\<close> fills in, and the two constants of \<^verbatim>\<open><sys/stat.h>\<close> for
  it: the mask of the file type and the type of a regular file, octal \<^verbatim>\<open>0170000\<close> and
  \<^verbatim>\<open>0100000\<close> on Linux, macOS and Windows alike. (The type of a socket is octal \<^verbatim>\<open>0140000\<close>.)
\<close>

type_synonym mode_t = "32 word"

definition S_IFMT :: mode_t where
  "S_IFMT = 0xF000"

definition S_IFREG :: mode_t where
  "S_IFREG = 0x8000"

text \<open>The renderer's \<^verbatim>\<open>options\<close> node and the procedural node, as the adapter reads them.\<close>

record AtOptions =
  plugin_searchpath :: string
  procedural_searchpath :: string

record AtNode =
  param_name :: string
  param_data :: string
  param_script :: string
  param_verbose :: "bool option"

text \<open>
  What the program reads and never changes. \<open>stat p\<close> is the mode that \<^verbatim>\<open>stat(p, &st)\<close>
  stores in \<^verbatim>\<open>st.st_mode\<close>, \<open>None\<close> when the call fails (there is no such entry).
  \<open>AiNodeLookUpByName\<close> is the renderer's registry, applied to a name pointer that may
  be null. \<open>AI_VERSION_ARCH_NUM\<close> and \<open>win32\<close> are the two compile-time switches and
  \<open>LONG_BIT\<close> is the width of the C type \<^verbatim>\<open>long\<close>. \<open>script_exception\<close> is the kind of the
  exception that the script raises while it is loaded or while its \<^verbatim>\<open>Init\<close> runs, when one
  of the two raises.
\<close>

record env =
  win32 :: bool
  AI_VERSION_ARCH_NUM :: nat
  LONG_BIT :: nat
  getenv :: "string \<Rightarrow> string option"
  stat :: "string \<Rightarrow> mode_t option"
  import_imp :: "imp_module option"
  script_exception :: pyexc
  AiNodeLookUpByName :: "string option \<Rightarrow> nat option"
  AiUniverseGetOptions :: "AtOptions option"

text \<open>
  The file test that the source writes three times, once in the constructor and twice in
  \<^verbatim>\<open>findInPath\<close>: \<^verbatim>\<open>stat(p, &st) == 0 && (st.st_mode & S_IFREG) != 0\<close>.
\<close>

definition stat_isreg :: "env \<Rightarrow> string \<Rightarrow> bool" where
  "stat_isreg e p = (case stat e p of None \<Rightarrow> False | Some st_mode \<Rightarrow> st_mode AND S_IFREG \<noteq> 0)"

definition gsPathSep :: "env \<Rightarrow> char" where
  "gsPathSep e = (if win32 e then CHR '';'' else CHR '':'')"

subsection \<open>\<^verbatim>\<open>PythonDso::findInPath\<close>\<close>

lemma str_find_bounds:
  assumes "str_find s c pos = Some p1"
  shows "pos \<le> p1 \<and> p1 < length s"
proof -
  from assms have m: "c \<in> set (drop pos s)"
    and p: "p1 = pos + length (takeWhile (\<lambda>x. x \<noteq> c) (drop pos s))"
    by (auto simp: str_find_def split: if_splits)
  have "takeWhile (\<lambda>x. x \<noteq> c) (drop pos s) \<noteq> drop pos s"
    using m by (auto simp: takeWhile_eq_all_conv)
  moreover have "length (takeWhile (\<lambda>x. x \<noteq> c) (drop pos s)) \<le> length (drop pos s)"
    by (rule length_takeWhile_le)
  ultimately have "length (takeWhile (\<lambda>x. x \<noteq> c) (drop pos s)) < length (drop pos s)"
    by (metis le_neq_implies_less takeWhile_eq_take take_all_iff order_refl take_all)
  then show ?thesis using p by auto
qed

text \<open>
  The method returns \<^verbatim>\<open>found\<close> and leaves the match in the reference \<^verbatim>\<open>path\<close>; its only
  caller discards \<^verbatim>\<open>path\<close> when \<^verbatim>\<open>found\<close> is false. The model returns \<open>Some (Some path)\<close>
  for \<^verbatim>\<open>found\<close> with that path, \<open>Some None\<close> for not found.

  The method calls itself on the value of an environment variable and nothing bounds the
  depth, so a run need not return. \<open>fuel\<close> is the number of nested activations allowed:
  each recursive call of the source spends one, the \<^verbatim>\<open>while\<close> loop spends none. The outer
  \<open>None\<close> says that the fuel ran out before the run returned.

  \<open>p0\<close> is the loop variable of the source; \<open>p1\<close> is bound by the \<open>case\<close> on \<open>find\<close>. The
  first branch of that case is the body of the \<^verbatim>\<open>while\<close> loop, the second is the block
  after it for the last segment.
\<close>

function findInPath_from ::
  "env \<Rightarrow> nat \<Rightarrow> string \<Rightarrow> string \<Rightarrow> nat \<Rightarrow> string option option" where
  "findInPath_from e fuel procpath script p0 =
    (case fuel of
       0 \<Rightarrow> None
     | Suc depth \<Rightarrow>
        (case str_find procpath (gsPathSep e) p0 of
           Some p1 \<Rightarrow>
             (let path = substr procpath p0 (p1 - p0) in
              if length path > 0 then
                if path ! 0 = CHR ''['' \<and> path ! (length path - 1) = CHR '']'' then
                  (case getenv e (substr path 1 (length path - 2)) of
                     Some envv \<Rightarrow>
                       (case findInPath_from e depth envv script 0 of
                          None \<Rightarrow> None
                        | Some (Some found) \<Rightarrow> Some (Some found)
                        | Some None \<Rightarrow> findInPath_from e fuel procpath script (p1 + 1))
                   | None \<Rightarrow> findInPath_from e fuel procpath script (p1 + 1))
                else
                  (if stat_isreg e (path @ ''/'' @ script)
                   then Some (Some (path @ ''/'' @ script))
                   else findInPath_from e fuel procpath script (p1 + 1))
              else findInPath_from e fuel procpath script (p1 + 1))
         | None \<Rightarrow>
             (let path = substr_from procpath p0 in
              if length path > 0 then
                if path ! 0 = CHR ''['' \<and> path ! (length path - 1) = CHR '']'' then
                  (case getenv e (substr path 1 (length path - 2)) of
                     Some envv \<Rightarrow> findInPath_from e depth envv script 0
                   | None \<Rightarrow> Some None)
                else
                  (if stat_isreg e (path @ ''/'' @ script)
                   then Some (Some (path @ ''/'' @ script))
                   else Some None)
              else Some None)))"
  by pat_completeness auto
termination
  apply (relation "measures [\<lambda>(e, fuel, procpath, script, p0). fuel,
                            \<lambda>(e, fuel, procpath, script, p0). length procpath - p0]")
  apply (auto dest: str_find_bounds)
  done

declare findInPath_from.simps [simp del]

definition findInPath :: "env \<Rightarrow> nat \<Rightarrow> string \<Rightarrow> string \<Rightarrow> string option option" where
  "findInPath e fuel procpath script = findInPath_from e fuel procpath script 0"

subsection \<open>Outcomes and the state that calls change\<close>

text \<open>
  \<open>NullDereference\<close>: a null \<^verbatim>\<open>PyObject*\<close> was read through. \<open>InvalidBridgePointer\<close>: an
  exported function was handed a \<^verbatim>\<open>user_ptr\<close> that is null or no longer allocated.
  A call ends in one of four ways: it returns a value, it faults, it ends the process
  (\<open>ProcessExit\<close>, with the state at that moment), or the recursion of \<^verbatim>\<open>findInPath\<close> under it
  runs out of fuel.
\<close>

datatype fault = NullDereference | InvalidBridgePointer

datatype severity = MsgInfo | MsgWarning | MsgError

text \<open>
  The trace records, oldest first, each message sent to the renderer's log (its severity and
  format string), each \<^verbatim>\<open>PyErr_Print\<close>, and each \<^verbatim>\<open>Py_INCREF\<close> and \<^verbatim>\<open>Py_DECREF\<close> the source
  writes, labelled with the C++ variable it is applied to.
\<close>

datatype pyvar = Var_pyimp | Var_pyload | Var_mModule | Var_func | Var_pyrv | Var_mUserData

datatype event = AiMsg severity string | PyErrPrinted | INCREF pyvar | DECREF pyvar

record PythonDso =
  mProcName :: string
  mScript :: string
  mModule :: "pymodule option"
  mUserData :: "pyval option"
  mVerbose :: bool

text \<open>
  \<open>runtime_initialized\<close> is what \<^verbatim>\<open>Py_IsInitialized()\<close> reads and \<open>error_indicator\<close> what
  \<^verbatim>\<open>PyErr_Occurred()\<close> reads. \<open>heap\<close> holds the bridges allocated with \<^verbatim>\<open>new\<close> and not yet
  deleted, by address; \<open>next_ptr\<close> is the next address \<^verbatim>\<open>new\<close> hands out.
\<close>

record world =
  runtime_initialized :: bool
  error_indicator :: bool
  trace :: "event list"
  heap :: "nat \<Rightarrow> PythonDso option"
  next_ptr :: nat

datatype 'a outcome = Returns 'a world | Fault fault | ProcessExit world | OutOfFuel

type_synonym 'a prog = "world \<Rightarrow> 'a outcome"

type_synonym c_int = "32 word"

definition ret :: "'a \<Rightarrow> 'a prog" where
  "ret x w = Returns x w"

definition andThen :: "'a prog \<Rightarrow> ('a \<Rightarrow> 'b prog) \<Rightarrow> 'b prog" where
  "andThen m k w =
     (case m w of
        Returns x w' \<Rightarrow> k x w'
      | Fault f \<Rightarrow> Fault f
      | ProcessExit w' \<Rightarrow> ProcessExit w'
      | OutOfFuel \<Rightarrow> OutOfFuel)"

definition andNext :: "unit prog \<Rightarrow> 'b prog \<Rightarrow> 'b prog" where
  "andNext m k = andThen m (\<lambda>_. k)"

subsection \<open>The renderer's log and the Python C API, as far as the source uses them\<close>

definition AiMsgInfo :: "string \<Rightarrow> unit prog" where
  "AiMsgInfo fmt w = Returns () (w\<lparr>trace := trace w @ [AiMsg MsgInfo fmt]\<rparr>)"

definition AiMsgWarning :: "string \<Rightarrow> unit prog" where
  "AiMsgWarning fmt w = Returns () (w\<lparr>trace := trace w @ [AiMsg MsgWarning fmt]\<rparr>)"

definition AiMsgError :: "string \<Rightarrow> unit prog" where
  "AiMsgError fmt w = Returns () (w\<lparr>trace := trace w @ [AiMsg MsgError fmt]\<rparr>)"

definition Py_IsInitialized :: "bool prog" where
  "Py_IsInitialized w = Returns (runtime_initialized w) w"

definition PyErr_Occurred :: "bool prog" where
  "PyErr_Occurred w = Returns (error_indicator w) w"

text \<open>
  \<^verbatim>\<open>PyErr_Print\<close> on a pending error other than \<^verbatim>\<open>SystemExit\<close> prints it and clears the
  indicator. On a pending \<^verbatim>\<open>SystemExit\<close> it ends the process. The error indicator of the model
  does not hold the kind of the pending error, so the call is written in two forms.
  \<open>PyErr_Print_raised exc\<close> stands where the pending error was raised by the script's code
  and \<open>exc\<close> is its kind: in \<^verbatim>\<open>init\<close>, after the failed load and after the failed call of
  \<^verbatim>\<open>Init\<close>. \<open>PyErr_Print\<close> stands everywhere else: where the pending error was set by the API
  itself (a \<^verbatim>\<open>TypeError\<close>, a \<^verbatim>\<open>SystemError\<close>, an \<^verbatim>\<open>OverflowError\<close>, an \<^verbatim>\<open>ImportError\<close>), and in
  \<^verbatim>\<open>numNodes\<close>, \<^verbatim>\<open>getNode\<close> and \<^verbatim>\<open>cleanup\<close>, which are modelled for scripts whose \<^verbatim>\<open>NumNodes\<close>,
  \<^verbatim>\<open>GetNode\<close> and \<^verbatim>\<open>Cleanup\<close> raise no \<^verbatim>\<open>SystemExit\<close>.
\<close>

definition PyErr_Print :: "unit prog" where
  "PyErr_Print w = Returns () (w\<lparr>error_indicator := False, trace := trace w @ [PyErrPrinted]\<rparr>)"

definition PyErr_Print_raised :: "pyexc \<Rightarrow> unit prog" where
  "PyErr_Print_raised exc w =
     (case exc of SystemExit \<Rightarrow> ProcessExit w | OtherException \<Rightarrow> PyErr_Print w)"

definition PyErr_Clear :: "unit prog" where
  "PyErr_Clear w = Returns () (w\<lparr>error_indicator := False\<rparr>)"

text \<open>An API call that fails returns null and sets the error indicator.\<close>

definition fails :: "'a option prog" where
  "fails w = Returns None (w\<lparr>error_indicator := True\<rparr>)"

text \<open>
  The macros \<^verbatim>\<open>Py_INCREF(x)\<close> and \<^verbatim>\<open>Py_DECREF(x)\<close> write to the reference count inside
  \<^verbatim>\<open>*x\<close> without testing \<^verbatim>\<open>x\<close> (the testing variants are \<^verbatim>\<open>Py_XINCREF\<close> and \<^verbatim>\<open>Py_XDECREF\<close>).
\<close>

definition Py_INCREF :: "pyvar \<Rightarrow> 'a option \<Rightarrow> unit prog" where
  "Py_INCREF v p w =
     (case p of None \<Rightarrow> Fault NullDereference
      | Some _ \<Rightarrow> Returns () (w\<lparr>trace := trace w @ [INCREF v]\<rparr>))"

definition Py_DECREF :: "pyvar \<Rightarrow> 'a option \<Rightarrow> unit prog" where
  "Py_DECREF v p w =
     (case p of None \<Rightarrow> Fault NullDereference
      | Some _ \<Rightarrow> Returns () (w\<lparr>trace := trace w @ [DECREF v]\<rparr>))"

text \<open>\<^verbatim>\<open>PyImport_ImportModule("imp")\<close>.\<close>

definition PyImport_ImportModule_imp :: "env \<Rightarrow> imp_module option prog" where
  "PyImport_ImportModule_imp e =
     (case import_imp e of None \<Rightarrow> fails | Some m \<Rightarrow> ret (Some m))"

text \<open>
  \<^verbatim>\<open>PyObject_GetAttrString(o, name)\<close> reads the type of \<^verbatim>\<open>*o\<close> first. It is written once
  for the \<^verbatim>\<open>imp\<close> module, whose only attribute of interest is \<^verbatim>\<open>load_source\<close>, and once
  for a script module.
\<close>

definition PyObject_GetAttrString_load_source ::
  "imp_module option \<Rightarrow> load_source_fn option prog" where
  "PyObject_GetAttrString_load_source pyimp =
     (case pyimp of
        None \<Rightarrow> (\<lambda>w. Fault NullDereference)
      | Some m \<Rightarrow> (case m of None \<Rightarrow> fails | Some f \<Rightarrow> ret (Some f)))"

definition PyObject_GetAttrString :: "pymodule option \<Rightarrow> string \<Rightarrow> pyfunc option prog" where
  "PyObject_GetAttrString obj name =
     (case obj of
        None \<Rightarrow> (\<lambda>w. Fault NullDereference)
      | Some m \<Rightarrow> (case m name of None \<Rightarrow> fails | Some f \<Rightarrow> ret (Some f)))"

text \<open>
  \<^verbatim>\<open>PyObject_CallFunction(callable, format, ...)\<close> builds the argument tuple and calls.
  It tests \<^verbatim>\<open>callable\<close> for null, and a null object for an \<^verbatim>\<open>O\<close> of the format makes the
  argument tuple fail to build: both return null with the error indicator set. The
  arguments are given as pointers for that reason. \<open>PyObject_CallFunction_ss\<close> is the call
  with the format \<^verbatim>\<open>"ss"\<close> on the loader, \<open>PyObject_CallFunction\<close> the call with the formats
  \<^verbatim>\<open>"s"\<close> and \<^verbatim>\<open>"Oi"\<close>, and \<open>PyObject_CallFunction_O\<close> the call with the format \<^verbatim>\<open>"O"\<close>: there
  the one object built from the format is itself the argument tuple when it is a tuple, and
  the only argument otherwise.
\<close>

definition PyObject_CallFunction_ss ::
  "load_source_fn option \<Rightarrow> string \<Rightarrow> string \<Rightarrow> pymodule option prog" where
  "PyObject_CallFunction_ss callable a b =
     (case callable of
        None \<Rightarrow> fails
      | Some f \<Rightarrow> (case f a b of None \<Rightarrow> fails | Some m \<Rightarrow> ret (Some m)))"

definition PyObject_CallFunction :: "pyfunc option \<Rightarrow> pyval option list \<Rightarrow> pyval option prog" where
  "PyObject_CallFunction callable args =
     (case callable of
        None \<Rightarrow> fails
      | Some f \<Rightarrow>
          (case those args of
             None \<Rightarrow> fails
           | Some vs \<Rightarrow> (case f vs of None \<Rightarrow> fails | Some v \<Rightarrow> ret (Some v))))"

definition PyObject_CallFunction_O :: "pyfunc option \<Rightarrow> pyval option \<Rightarrow> pyval option prog" where
  "PyObject_CallFunction_O callable obj =
     (case callable of
        None \<Rightarrow> fails
      | Some f \<Rightarrow>
          (case obj of
             None \<Rightarrow> fails
           | Some v \<Rightarrow>
               (case f (case v of PyTuple vs \<Rightarrow> vs | _ \<Rightarrow> [v]) of
                  None \<Rightarrow> fails
                | Some r \<Rightarrow> ret (Some r))))"

definition PyTuple_Check :: "pyval \<Rightarrow> bool" where
  "PyTuple_Check v = (case v of PyTuple _ \<Rightarrow> True | _ \<Rightarrow> False)"

definition PyTuple_Size :: "pyval \<Rightarrow> int" where
  "PyTuple_Size v = (case v of PyTuple xs \<Rightarrow> int (length xs) | _ \<Rightarrow> - 1)"

definition PyTuple_GetItem :: "pyval \<Rightarrow> nat \<Rightarrow> pyval option prog" where
  "PyTuple_GetItem v i =
     (case v of
        PyTuple xs \<Rightarrow> (if i < length xs then ret (Some (xs ! i)) else fails)
      | _ \<Rightarrow> fails)"

text \<open>
  \<^verbatim>\<open>PyInt_AsLong\<close>: the value of an integer object when it fits the C type \<^verbatim>\<open>long\<close>; \<^verbatim>\<open>-1\<close>
  with the error indicator set for an integer that does not fit, for an object that is no
  integer, and for a null pointer.
\<close>

definition fits_long :: "env \<Rightarrow> int \<Rightarrow> bool" where
  "fits_long e n = (- (2 ^ (LONG_BIT e - 1)) \<le> n \<and> n < 2 ^ (LONG_BIT e - 1))"

definition PyInt_AsLong :: "env \<Rightarrow> pyval option \<Rightarrow> int prog" where
  "PyInt_AsLong e p w =
     (case p of
        Some (PyInt n) \<Rightarrow>
          (if fits_long e n then Returns n w
           else Returns (- 1) (w\<lparr>error_indicator := True\<rparr>))
      | _ \<Rightarrow> Returns (- 1) (w\<lparr>error_indicator := True\<rparr>))"

definition PyString_Check :: "pyval \<Rightarrow> bool" where
  "PyString_Check v = (case v of PyString _ \<Rightarrow> True | _ \<Rightarrow> False)"

text \<open>
  \<^verbatim>\<open>PyString_AsString\<close>: the bytes of a string object; for a Unicode object, the bytes of
  its default (ASCII) encoding when it has one; null with the error indicator set for
  anything else.
\<close>

definition PyString_AsString :: "pyval \<Rightarrow> string option prog" where
  "PyString_AsString v =
     (case v of
        PyString s \<Rightarrow> ret (Some s)
      | PyUnicode s \<Rightarrow> (if list_all (\<lambda>c. of_char c < (128 :: nat)) s then ret (Some s) else fails)
      | _ \<Rightarrow> fails)"

subsection \<open>The class \<^verbatim>\<open>PythonDso\<close>\<close>

definition dirSepFrom :: "env \<Rightarrow> char" where
  "dirSepFrom e = (if win32 e then CHR ''/'' else CHR 0x5C)"

definition dirSepTo :: "env \<Rightarrow> char" where
  "dirSepTo e = (if win32 e then CHR 0x5C else CHR ''/'')"

definition run_findInPath :: "env \<Rightarrow> nat \<Rightarrow> string \<Rightarrow> string \<Rightarrow> string option prog" where
  "run_findInPath e fuel procpath script w =
     (case findInPath e fuel procpath script of
        None \<Rightarrow> OutOfFuel
      | Some found \<Rightarrow> Returns found w)"

text \<open>
  The constructor. The loop that rewrites every \<^verbatim>\<open>dirSepFrom\<close> of \<^verbatim>\<open>mScript\<close> into
  \<^verbatim>\<open>dirSepTo\<close> is the \<open>map\<close>.
\<close>

definition PythonDso_new ::
  "env \<Rightarrow> nat \<Rightarrow> string \<Rightarrow> string \<Rightarrow> string \<Rightarrow> bool \<Rightarrow> PythonDso prog" where
  \<open>PythonDso_new e fuel node_name script procedural_path verbose =
     andThen
       (if \<not> stat_isreg e script then
          andNext
            (if verbose
             then AiMsgInfo ''[pyproc] Search python procedural in options.procedural_searchpath...''
             else ret ())
            (andThen (run_findInPath e fuel procedural_path script) (\<lambda>found.
               case found of
                 None \<Rightarrow>
                   andNext (AiMsgWarning ''[pyproc] Python procedural '%s' not found in path'')
                     (ret [])
               | Some path \<Rightarrow> ret path))
        else ret script)
       (\<lambda>script0.
          if length script0 > 0 then
            andNext
              (if verbose then AiMsgInfo ''[pyproc] Resolved script path "%s"'' else ret ())
              (ret \<lparr>mProcName = node_name,
                    mScript = map (\<lambda>c. if c = dirSepFrom e then dirSepTo e else c) script0,
                    mModule = None, mUserData = None, mVerbose = verbose\<rparr>)
          else
            ret \<lparr>mProcName = node_name, mScript = script0,
                 mModule = None, mUserData = None, mVerbose = verbose\<rparr>)\<close>

definition valid :: "PythonDso \<Rightarrow> bool" where
  "valid dso = (length (mScript dso) > 0)"

text \<open>The first lines of \<^verbatim>\<open>init\<close>, under the comment \<^verbatim>\<open>Derive python module name\<close>.\<close>

definition derive_modname :: "string \<Rightarrow> string" where
  "derive_modname script =
     (let modname = ''pyproc_'' @
            (case find_last_of script [CHR 0x5C, CHR ''/''] of
               Some p0 \<Rightarrow> substr_from script (p0 + 1)
             | None \<Rightarrow> script)
      in case str_find modname CHR ''.'' 0 of
           Some p0 \<Rightarrow> substr modname 0 p0
         | None \<Rightarrow> modname)"

text \<open>
  \<^verbatim>\<open>init\<close>. Each branch yields the pair of \<^verbatim>\<open>rv\<close> and the bridge as the branch leaves
  them; the releases the source writes after a branch follow it here in the same order.
  The \<^verbatim>\<open>int\<close> variable \<^verbatim>\<open>rv\<close> takes the \<^verbatim>\<open>long\<close> of \<^verbatim>\<open>PyInt_AsLong\<close> cut to its width.
\<close>

definition init :: "env \<Rightarrow> PythonDso \<Rightarrow> (c_int \<times> PythonDso) prog" where
  \<open>init e dso =
     (let modname = derive_modname (mScript dso) in
      andThen (PyImport_ImportModule_imp e) (\<lambda>pyimp.
      if pyimp = None then
        andNext (AiMsgError ''[pyproc] Could not import imp module'')
        (andNext PyErr_Print
        (andNext PyErr_Clear
        (ret (0, dso))))
      else
        andThen (PyObject_GetAttrString_load_source pyimp) (\<lambda>pyload.
        andThen
          (if pyload = None then
             andNext (AiMsgError ''[pyproc] No "load_source" function in imp module'')
             (andNext PyErr_Print
             (andNext PyErr_Clear
             (andNext (Py_DECREF Var_pyimp pyimp)
             (ret (0, dso)))))
           else
             andNext
               (if mVerbose dso then AiMsgInfo ''[pyproc] Loading procedural module'' else ret ())
             (andThen (PyObject_CallFunction_ss pyload modname (mScript dso)) (\<lambda>module.
             let dso1 = dso\<lparr>mModule := module\<rparr> in
             andThen
               (if module = None then
                  andNext (AiMsgError ''[pyproc] Failed to import procedural python module'')
                  (andNext (PyErr_Print_raised (script_exception e))
                  (andNext PyErr_Clear
                  (ret (0, dso1))))
                else
                  andThen (PyObject_GetAttrString (mModule dso1) ''Init'') (\<lambda>func.
                  if func \<noteq> None then
                    andThen
                      (PyObject_CallFunction func [Some (PyString (mProcName dso1))]) (\<lambda>pyrv.
                    andThen
                      (case pyrv of
                         Some v \<Rightarrow>
                           andThen
                             (if PyTuple_Check v \<and> PyTuple_Size v = 2 then
                                andThen (PyTuple_GetItem v 1) (\<lambda>item1.
                                let dso2 = dso1\<lparr>mUserData := item1\<rparr> in
                                andNext (Py_INCREF Var_mUserData (mUserData dso2))
                                (andThen (PyTuple_GetItem v 0) (\<lambda>item0.
                                andThen (PyInt_AsLong e item0) (\<lambda>status.
                                let rv = (word_of_int status :: c_int) in
                                andThen PyErr_Occurred (\<lambda>err.
                                if rv = - 1 \<and> err then
                                  andNext (AiMsgError
                                    ''[pyproc] Invalid return value for "Init" function in module "%s"'')
                                  (andNext PyErr_Print
                                  (andNext PyErr_Clear
                                  (ret (0, dso2))))
                                else ret (rv, dso2))))))
                              else
                                andNext (AiMsgError
                                  ''[pyproc] Invalid return value for "Init" function in module "%s"'')
                                (ret (0, dso1)))
                             (\<lambda>r. andNext (Py_DECREF Var_pyrv pyrv) (ret r))
                       | None \<Rightarrow>
                           andNext (AiMsgError ''[pyproc] "Init" function failed in module "%s"'')
                           (andNext (PyErr_Print_raised (script_exception e))
                           (andNext PyErr_Clear
                           (ret (0, dso1)))))
                      (\<lambda>r. andNext (Py_DECREF Var_func func) (ret r)))
                  else
                    andNext (AiMsgError ''[pyproc] No "Init" function in module "%s"'')
                    (andNext PyErr_Clear
                    (ret (0, dso1)))))
               (\<lambda>r. andNext (Py_DECREF Var_pyload pyload) (ret r)))))
          (\<lambda>r. andNext (Py_DECREF Var_pyimp pyimp) (ret r)))))\<close>

definition numNodes :: "env \<Rightarrow> PythonDso \<Rightarrow> c_int prog" where
  \<open>numNodes e dso =
     andThen (PyObject_GetAttrString (mModule dso) ''NumNodes'') (\<lambda>func.
     if func \<noteq> None then
       andThen (PyObject_CallFunction_O func (mUserData dso)) (\<lambda>pyrv.
       andThen
         (if pyrv \<noteq> None then
            andThen (PyInt_AsLong e pyrv) (\<lambda>count.
            let rv = (word_of_int count :: c_int) in
            andThen PyErr_Occurred (\<lambda>err.
            andThen
              (if rv = - 1 \<and> err then
                 andNext (AiMsgError
                   ''[pyproc] Invalid return value for "NumNodes" function in module "%s"'')
                 (andNext PyErr_Print
                 (andNext PyErr_Clear
                 (ret 0)))
               else ret rv)
              (\<lambda>r. andNext (Py_DECREF Var_pyrv pyrv) (ret r))))
          else
            andNext (AiMsgError ''[pyproc] "NumNodes" function failed in module "%s"'')
            (andNext PyErr_Print
            (andNext PyErr_Clear
            (ret 0))))
         (\<lambda>r. andNext (Py_DECREF Var_func func) (ret r)))
     else
       andNext (AiMsgError ''[pyproc] No "NumNodes" function in module "%s"'')
       (andNext PyErr_Clear
       (ret 0)))\<close>

text \<open>
  \<^verbatim>\<open>getNode\<close>. The result is the renderer's node handle, \<open>None\<close> for a null \<^verbatim>\<open>AtNode*\<close>. The
  \<^verbatim>\<open>if (!PyString_Check(pyrv))\<close> of the source has no \<^verbatim>\<open>else\<close> and does not leave the block:
  the lines after it run for every non-null \<^verbatim>\<open>pyrv\<close>.
\<close>

definition getNode :: "env \<Rightarrow> PythonDso \<Rightarrow> c_int \<Rightarrow> nat option prog" where
  \<open>getNode e dso i =
     andThen (PyObject_GetAttrString (mModule dso) ''GetNode'') (\<lambda>func.
     if func \<noteq> None then
       andThen (PyObject_CallFunction func [mUserData dso, Some (PyInt (sint i))]) (\<lambda>pyrv.
       andThen
         (case pyrv of
            Some v \<Rightarrow>
              andNext
                (if \<not> PyString_Check v
                 then AiMsgError
                   ''[pyproc] Invalid return value for "GetNode" function in module "%s"''
                 else ret ())
              (andThen (PyString_AsString v) (\<lambda>nodeName.
              let rv = AiNodeLookUpByName e nodeName in
              andNext
                (if rv = None
                 then AiMsgError
                   ''[pyproc] Invalid node name "%s" return by "GetNode" function in modulde "%s"''
                 else ret ())
              (andNext (Py_DECREF Var_pyrv pyrv)
              (ret rv))))
          | None \<Rightarrow>
              andNext (AiMsgError ''[pyproc] "GetNode" function failed in module "%s"'')
              (andNext PyErr_Print
              (andNext PyErr_Clear
              (ret None))))
         (\<lambda>r. andNext (Py_DECREF Var_func func) (ret r)))
     else
       andNext (AiMsgError ''[pyproc] No "GetNode" function in module "%s"'')
       (andNext PyErr_Clear
       (ret None)))\<close>

definition cleanup :: "env \<Rightarrow> PythonDso \<Rightarrow> (c_int \<times> PythonDso) prog" where
  \<open>cleanup e dso =
     andThen (PyObject_GetAttrString (mModule dso) ''Cleanup'') (\<lambda>func.
     andThen
       (if func \<noteq> None then
          andThen (PyObject_CallFunction_O func (mUserData dso)) (\<lambda>pyrv.
          andThen
            (if pyrv \<noteq> None then
               andThen (PyInt_AsLong e pyrv) (\<lambda>status.
               let rv = (word_of_int status :: c_int) in
               andThen PyErr_Occurred (\<lambda>err.
               andThen
                 (if rv = - 1 \<and> err then
                    andNext (AiMsgError
                      ''[pyproc] Invalid return value for "Cleanup" function in module "%s"'')
                    (andNext PyErr_Print
                    (andNext PyErr_Clear
                    (ret 0)))
                  else ret rv)
                 (\<lambda>r. andNext (Py_DECREF Var_pyrv pyrv) (ret r))))
             else
               andNext (AiMsgError ''[pyproc] "Cleanup" function failed in module "%s"'')
               (andNext PyErr_Print
               (andNext PyErr_Clear
               (ret 0))))
            (\<lambda>r. andNext (Py_DECREF Var_func func) (ret r)))
        else
          andNext (AiMsgError ''[pyproc] No "Cleanup" function in module "%s"'')
          (andNext PyErr_Clear
          (ret 0)))
       (\<lambda>rv.
          andNext (Py_DECREF Var_mUserData (mUserData dso))
          (andNext (Py_DECREF Var_mModule (mModule dso))
          (ret (rv, dso\<lparr>mUserData := None, mModule := None\<rparr>)))))\<close>

subsection \<open>The exported functions\<close>

text \<open>
  \<^verbatim>\<open>new PythonDso(...)\<close> stores the constructed bridge at a fresh address; \<^verbatim>\<open>delete dso\<close>
  frees that address. \<open>deref\<close> is the cast of \<^verbatim>\<open>user_ptr\<close> to \<^verbatim>\<open>PythonDso*\<close> followed by a
  member call through it, and \<open>store\<close> writes back the members a method changed.
\<close>

definition new_PythonDso :: "PythonDso \<Rightarrow> nat prog" where
  "new_PythonDso dso w =
     Returns (next_ptr w) (w\<lparr>heap := (heap w)(next_ptr w := Some dso), next_ptr := next_ptr w + 1\<rparr>)"

definition delete :: "nat \<Rightarrow> unit prog" where
  "delete p w = Returns () (w\<lparr>heap := (heap w)(p := None)\<rparr>)"

definition deref :: "nat option \<Rightarrow> (nat \<times> PythonDso) prog" where
  "deref user_ptr w =
     (case user_ptr of
        None \<Rightarrow> Fault InvalidBridgePointer
      | Some p \<Rightarrow> (case heap w p of None \<Rightarrow> Fault InvalidBridgePointer | Some dso \<Rightarrow> Returns (p, dso) w))"

definition store :: "nat \<Rightarrow> PythonDso \<Rightarrow> unit prog" where
  "store p dso w = Returns () (w\<lparr>heap := (heap w)(p := Some dso)\<rparr>)"

definition PYPROC_CLEANUP :: "env \<Rightarrow> nat option \<Rightarrow> c_int prog" where
  "PYPROC_CLEANUP e user_ptr =
     andThen Py_IsInitialized (\<lambda>alive.
     if \<not> alive then
       andNext (AiMsgWarning ''[pyproc] Cleanup: Python not initialized'') (ret 0)
     else
       andThen (deref user_ptr) (\<lambda>(p, dso).
       andThen (cleanup e dso) (\<lambda>(rv, dso').
       andNext (store p dso')
       (andNext (delete p)
       (ret rv)))))"

definition PYPROC_NUM_NODES :: "env \<Rightarrow> nat option \<Rightarrow> c_int prog" where
  "PYPROC_NUM_NODES e user_ptr =
     andThen Py_IsInitialized (\<lambda>alive.
     if \<not> alive then
       andNext (AiMsgWarning ''[pyproc] NumNodes: Python not initialized'') (ret 0)
     else
       andThen (deref user_ptr) (\<lambda>(p, dso). numNodes e dso))"

definition PYPROC_GET_NODE :: "env \<Rightarrow> nat option \<Rightarrow> c_int \<Rightarrow> nat option prog" where
  "PYPROC_GET_NODE e user_ptr i =
     andThen Py_IsInitialized (\<lambda>alive.
     if \<not> alive then
       andNext (AiMsgWarning ''[pyproc] GetNode: Python not initialized'') (ret None)
     else
       andThen (deref user_ptr) (\<lambda>(p, dso). getNode e dso i))"

text \<open>
  What \<^verbatim>\<open>PYPROC_INIT\<close> reads from the renderer. The two revisions of the renderer's
  interface differ in the search path (from revision 5 on, the plugin search path and a
  separator come first) and in the parameter that names the script (\<^verbatim>\<open>data\<close> before
  revision 5, \<^verbatim>\<open>script\<close> from it on). \<open>param_verbose\<close> is \<open>None\<close> for a node that has no
  \<^verbatim>\<open>verbose\<close> parameter, which reads as false.
\<close>

definition procedural_path_of :: "env \<Rightarrow> AtOptions \<Rightarrow> string" where
  "procedural_path_of e opts =
     (if AI_VERSION_ARCH_NUM e \<ge> 5 then plugin_searchpath opts @ [gsPathSep e] else [])
       @ procedural_searchpath opts"

definition script_of :: "env \<Rightarrow> AtNode \<Rightarrow> string" where
  "script_of e node = (if AI_VERSION_ARCH_NUM e < 5 then param_data node else param_script node)"

definition verbose_of :: "AtNode \<Rightarrow> bool" where
  "verbose_of node = (case param_verbose node of Some b \<Rightarrow> b | None \<Rightarrow> False)"

text \<open>
  \<^verbatim>\<open>PYPROC_INIT\<close>. \<open>user_ptr\<close> is what the renderer's slot \<^verbatim>\<open>*user_ptr\<close> holds at the call;
  the result pairs the returned status with what the slot holds at the return. The
  variable \<open>dso\<close> is the pointer that \<^verbatim>\<open>new\<close> returns and \<open>dso0\<close> the object behind it.
\<close>

definition PYPROC_INIT ::
  "env \<Rightarrow> nat \<Rightarrow> AtNode \<Rightarrow> nat option \<Rightarrow> (c_int \<times> nat option) prog" where
  "PYPROC_INIT e fuel node user_ptr =
     andThen Py_IsInitialized (\<lambda>alive.
     if \<not> alive then
       andNext (AiMsgWarning ''[pyproc] Init: Python not initialized'') (ret (0, user_ptr))
     else
       (case AiUniverseGetOptions e of
          None \<Rightarrow> andNext (AiMsgWarning ''[pyproc] No 'options' node'') (ret (0, user_ptr))
        | Some opts \<Rightarrow>
            andThen
              (PythonDso_new e fuel (param_name node) (script_of e node)
                 (procedural_path_of e opts) (verbose_of node)) (\<lambda>dso0.
            andThen (new_PythonDso dso0) (\<lambda>dso.
            if valid dso0 then
              andThen (init e dso0) (\<lambda>(rv, dso').
              andNext (store dso dso')
              (ret (rv, Some dso)))
            else ret (0, user_ptr)))))"

subsection \<open>Search-path resolution as the specification words it\<close>

text \<open>
  The segments of a search path: the text between separators, the text before the first
  and the text after the last included, empty ones too.
\<close>

function split_path :: "char \<Rightarrow> string \<Rightarrow> string list" where
  "split_path sep s =
     (if sep \<in> set s
      then takeWhile (\<lambda>c. c \<noteq> sep) s # split_path sep (tl (dropWhile (\<lambda>c. c \<noteq> sep) s))
      else [s])"
  by pat_completeness auto
termination
  by (relation "measure (\<lambda>(sep, s). length s)")
     (auto simp: less_Suc_eq_le length_dropWhile_le dest!: split_list_first simp: dropWhile_append)

declare split_path.simps [simp del]

text \<open>A segment "wrapped in bracket syntax \<^verbatim>\<open>[NAME]\<close>", and the name it encloses.\<close>

definition is_env_segment :: "string \<Rightarrow> bool" where
  "is_env_segment seg = (2 \<le> length seg \<and> hd seg = CHR ''['' \<and> last seg = CHR '']'')"

definition env_name :: "string \<Rightarrow> string" where
  "env_name seg = butlast (tl seg)"

text \<open>
  A regular file: an entry whose type, the bits of the mode under the mask \<^verbatim>\<open>S_IFMT\<close>, is
  \<^verbatim>\<open>S_IFREG\<close> (the macro \<^verbatim>\<open>S_ISREG\<close>). \<open>only_regular_files_pass\<close> says of a file system and
  a filename that every entry of that name, in any directory, whose mode has the bit of
  \<^verbatim>\<open>S_IFREG\<close> is a regular file: there is no socket of that name.
\<close>

definition is_regular_file :: "env \<Rightarrow> string \<Rightarrow> bool" where
  "is_regular_file e p =
     (case stat e p of None \<Rightarrow> False | Some st_mode \<Rightarrow> st_mode AND S_IFMT = S_IFREG)"

definition only_regular_files_pass :: "env \<Rightarrow> string \<Rightarrow> bool" where
  "only_regular_files_pass e filename =
     (\<forall>dir st_mode. stat e (dir @ ''/'' @ filename) = Some st_mode \<longrightarrow>
        st_mode AND S_IFREG \<noteq> 0 \<longrightarrow> st_mode AND S_IFMT = S_IFREG)"

text \<open>
  \<open>resolve\<close> as section 4.1 of the specification words it, as the relation between the
  segments of a search path and the result: \<open>Some p\<close> for the match \<open>p\<close>, \<open>None\<close> for
  \<open>NotFound\<close>. The segments are taken in order. An empty segment is skipped. A bracketed
  segment is skipped when the named variable is unset; when it is set, the filename is
  resolved against its value, used as a new search path: a match there is the result, and
  the scan goes on when there is none. Any other segment is a directory: the file
  \<open>segment/filename\<close> is the result if it exists as a regular file, and the scan goes on if
  not. When no segment is left the result is \<open>NotFound\<close>. The relation has no result where
  that recursion does not end.
\<close>

inductive resolve_spec :: "env \<Rightarrow> string \<Rightarrow> string list \<Rightarrow> string option \<Rightarrow> bool"
  for e :: env and filename :: string where
  NoSegmentLeft:
    "resolve_spec e filename [] None"
| EmptySegment:
    "resolve_spec e filename segs r \<Longrightarrow> resolve_spec e filename ([] # segs) r"
| VariableUnset:
    "seg \<noteq> [] \<Longrightarrow> is_env_segment seg \<Longrightarrow> getenv e (env_name seg) = None \<Longrightarrow>
     resolve_spec e filename segs r \<Longrightarrow> resolve_spec e filename (seg # segs) r"
| VariableMatch:
    "seg \<noteq> [] \<Longrightarrow> is_env_segment seg \<Longrightarrow> getenv e (env_name seg) = Some v \<Longrightarrow>
     resolve_spec e filename (split_path (gsPathSep e) v) (Some p) \<Longrightarrow>
     resolve_spec e filename (seg # segs) (Some p)"
| VariableNoMatch:
    "seg \<noteq> [] \<Longrightarrow> is_env_segment seg \<Longrightarrow> getenv e (env_name seg) = Some v \<Longrightarrow>
     resolve_spec e filename (split_path (gsPathSep e) v) None \<Longrightarrow>
     resolve_spec e filename segs r \<Longrightarrow> resolve_spec e filename (seg # segs) r"
| DirectoryMatch:
    "seg \<noteq> [] \<Longrightarrow> \<not> is_env_segment seg \<Longrightarrow> is_regular_file e (seg @ ''/'' @ filename) \<Longrightarrow>
     resolve_spec e filename (seg # segs) (Some (seg @ ''/'' @ filename))"
| DirectoryNoMatch:
    "seg \<noteq> [] \<Longrightarrow> \<not> is_env_segment seg \<Longrightarrow> \<not> is_regular_file e (seg @ ''/'' @ filename) \<Longrightarrow>
     resolve_spec e filename segs r \<Longrightarrow> resolve_spec e filename (seg # segs) r"

code_pred (modes: i \<Rightarrow> i \<Rightarrow> i \<Rightarrow> o \<Rightarrow> bool) resolve_spec .

subsection \<open>The run of \<^verbatim>\<open>findInPath\<close> over the list of segments\<close>

text \<open>
  The run of \<^verbatim>\<open>findInPath\<close> told over the list of the segments of the search path instead of
  positions in it: the same tests (the file test is that of the source), in the same order,
  under the same bound on the depth, the outer \<open>None\<close> saying that it ran out. It is the
  same function as the method (lemma \<open>findInPath_from_segments\<close> below); the statements about
  what a run returns, and whether it returns, are proved on it.
\<close>

fun findInPath_segments :: "env \<Rightarrow> nat \<Rightarrow> string list \<Rightarrow> string \<Rightarrow> string option option" where
  "findInPath_segments e 0 segs filename = None"
| "findInPath_segments e (Suc depth) [] filename = Some None"
| "findInPath_segments e (Suc depth) (seg # segs) filename =
     (if seg = [] then findInPath_segments e (Suc depth) segs filename
      else if is_env_segment seg then
        (case getenv e (env_name seg) of
           None \<Rightarrow> findInPath_segments e (Suc depth) segs filename
         | Some v \<Rightarrow>
             (case findInPath_segments e depth (split_path (gsPathSep e) v) filename of
                None \<Rightarrow> None
              | Some (Some p) \<Rightarrow> Some (Some p)
              | Some None \<Rightarrow> findInPath_segments e (Suc depth) segs filename))
      else if stat_isreg e (seg @ ''/'' @ filename) then Some (Some (seg @ ''/'' @ filename))
      else findInPath_segments e (Suc depth) segs filename)"

subsection \<open>Module names, failures and the log, as the specification words them\<close>

text \<open>The basename of a script: what follows its last slash or backslash.\<close>

definition basename :: "string \<Rightarrow> string" where
  "basename script = rev (takeWhile (\<lambda>c. c \<noteq> CHR 0x5C \<and> c \<noteq> CHR ''/'') (rev script))"

text \<open>
  The module name in the specification's words, "strip extension, prepend a fixed namespace
  tag": the extension of a file name is its last dot and what follows it.
\<close>

definition strip_extension :: "string \<Rightarrow> string" where
  "strip_extension name =
     (if CHR ''.'' \<in> set name
      then rev (tl (dropWhile (\<lambda>c. c \<noteq> CHR ''.'') (rev name)))
      else name)"

definition derive_modname_spec :: "string \<Rightarrow> string" where
  "derive_modname_spec script = ''pyproc_'' @ strip_extension (basename script)"



text \<open>
  What a call added to the trace, and whether it sent a message of a given severity to the
  renderer's log.
\<close>

definition new_events :: "world \<Rightarrow> world \<Rightarrow> event list" where
  "new_events w w' = drop (length (trace w)) (trace w')"

definition logged :: "severity \<Rightarrow> world \<Rightarrow> world \<Rightarrow> bool" where
  "logged sev w w' =
     (take (length (trace w)) (trace w') = trace w \<and>
      list_ex (\<lambda>ev. case ev of AiMsg s fmt \<Rightarrow> s = sev | _ \<Rightarrow> False)
        (drop (length (trace w)) (trace w')))"

text \<open>
  The indirection between environment variables. \<open>refs_of_path e p\<close> are the names that the
  search path \<open>p\<close> brackets; \<open>(n', n)\<close> is in \<open>var_refs e\<close> when the value of the variable \<open>n\<close>,
  read as a search path, brackets \<open>n'\<close>; \<open>reachable e p\<close> are the names that resolving \<open>p\<close> can
  come to: those it brackets, and those bracketed by the value of a name it can come to.
\<close>

definition refs_of_path :: "env \<Rightarrow> string \<Rightarrow> string set" where
  "refs_of_path e p =
     {n. \<exists>seg. seg \<in> set (split_path (gsPathSep e) p) \<and> is_env_segment seg \<and> env_name seg = n}"

definition var_refs :: "env \<Rightarrow> (string \<times> string) set" where
  "var_refs e = {(n', n). \<exists>v. getenv e n = Some v \<and> n' \<in> refs_of_path e v}"

definition reachable :: "env \<Rightarrow> string \<Rightarrow> string set" where
  "reachable e procpath = {n. \<exists>n0. n0 \<in> refs_of_path e procpath \<and> (n, n0) \<in> (var_refs e)\<^sup>*}"

subsection \<open>A script, a registry and a file system to run the model on\<close>

text \<open>
  The stub script of the specification's end-to-end scenario: \<^verbatim>\<open>Init\<close> returns the status
  \<open>1\<close> and a context, \<^verbatim>\<open>NumNodes\<close> returns \<open>2\<close>, \<^verbatim>\<open>GetNode\<close> names the nodes \<^verbatim>\<open>A\<close> and \<^verbatim>\<open>B\<close>,
  \<^verbatim>\<open>Cleanup\<close> returns \<open>1\<close>.
\<close>

definition ex_stub :: pymodule where
  "ex_stub name =
     (if name = ''Init'' then Some (\<lambda>args. Some (PyTuple [PyInt 1, PyOpaque 7]))
      else if name = ''NumNodes'' then Some (\<lambda>args. Some (PyInt 2))
      else if name = ''GetNode'' then
        Some (\<lambda>args. if args = [PyOpaque 7, PyInt 0] then Some (PyString ''A'')
                     else if args = [PyOpaque 7, PyInt 1] then Some (PyString ''B'')
                     else None)
      else if name = ''Cleanup'' then Some (\<lambda>args. Some (PyInt 1))
      else None)"

text \<open>
  One regular file, \<^verbatim>\<open>/y/f.py\<close> (of mode octal \<^verbatim>\<open>0100644\<close>), which loads as the stub; a
  \<^verbatim>\<open>long\<close> of 64 bits; the variable \<^verbatim>\<open>V\<close> holds the
  search path \<^verbatim>\<open>/x:/y\<close> and the variable \<^verbatim>\<open>W\<close> the search path \<^verbatim>\<open>/w:[V]\<close>; the registry
  knows the nodes \<^verbatim>\<open>A\<close> and \<^verbatim>\<open>B\<close>.
\<close>

definition ex_env :: env where
  "ex_env =
     \<lparr>win32 = False,
      AI_VERSION_ARCH_NUM = 5,
      LONG_BIT = 64,
      getenv = (\<lambda>n. if n = ''V'' then Some ''/x:/y''
                    else if n = ''W'' then Some ''/w:[V]'' else None),
      stat = (\<lambda>p. if p = ''/y/f.py'' then Some 0x81A4 else None),
      import_imp = Some (Some (\<lambda>modname file. if file = ''/y/f.py'' then Some ex_stub else None)),
      script_exception = OtherException,
      AiNodeLookUpByName =
        (\<lambda>n. if n = Some ''A'' then Some 1 else if n = Some ''B'' then Some 2 else None),
      AiUniverseGetOptions =
        Some \<lparr>plugin_searchpath = ''/plugins'', procedural_searchpath = ''/a::[W]''\<rparr>\<rparr>"

text \<open>
  The same environment with one variable \<^verbatim>\<open>LOOP\<close> whose value names \<^verbatim>\<open>LOOP\<close> again, and
  no file at all.
\<close>

definition ex_loop_env :: env where
  "ex_loop_env =
     ex_env\<lparr>getenv := (\<lambda>n. if n = ''LOOP'' then Some ''/q:[LOOP]'' else None),
            stat := (\<lambda>p. None)\<rparr>"

text \<open>
  A file system whose only entry is the socket \<^verbatim>\<open>/sock/s.py\<close> (of mode octal \<^verbatim>\<open>0140755\<close>).
\<close>

definition ex_socket_env :: env where
  "ex_socket_env = ex_env\<lparr>stat := (\<lambda>p. if p = ''/sock/s.py'' then Some 0xC1ED else None)\<rparr>"

text \<open>
  The variable \<^verbatim>\<open>LOOP\<close> names itself again, behind the directory \<^verbatim>\<open>/y\<close> that holds the file.
\<close>

definition ex_selfref_env :: env where
  "ex_selfref_env =
     ex_env\<lparr>getenv := (\<lambda>n. if n = ''LOOP'' then Some ''/y:[LOOP]'' else None)\<rparr>"

text \<open>
  A live runtime with an empty log and no bridge allocated; the bridge that the constructor
  builds for the script \<^verbatim>\<open>/y/f.py\<close>; a script whose \<^verbatim>\<open>Init\<close> returns a string where the
  status belongs, and an environment that loads it; the procedural node that names the
  script.
\<close>

definition ex_world :: world where
  "ex_world =
     \<lparr>runtime_initialized = True, error_indicator = False, trace = [],
      heap = (\<lambda>p. None), next_ptr = 0\<rparr>"

definition ex_dso :: PythonDso where
  "ex_dso =
     \<lparr>mProcName = ''proc1'', mScript = ''/y/f.py'', mModule = None, mUserData = None,
      mVerbose = False\<rparr>"

definition ex_badstatus_stub :: pymodule where
  "ex_badstatus_stub name =
     (if name = ''Init'' then Some (\<lambda>args. Some (PyTuple [PyString ''ok'', PyOpaque 7]))
      else ex_stub name)"

definition ex_badstatus_env :: env where
  "ex_badstatus_env =
     ex_env\<lparr>import_imp :=
       Some (Some (\<lambda>modname file. if file = ''/y/f.py'' then Some ex_badstatus_stub else None))\<rparr>"

definition ex_node :: AtNode where
  "ex_node =
     \<lparr>param_name = ''proc1'', param_data = ''/y/f.py'', param_script = ''/y/f.py'',
      param_verbose = Some False\<rparr>"





definition ex_unicode_stub :: pymodule where
  "ex_unicode_stub name =
     (if name = ''GetNode'' then Some (\<lambda>args. Some (PyUnicode ''A'')) else ex_stub name)"

definition ex_loaded_dso :: PythonDso where
  "ex_loaded_dso = ex_dso\<lparr>mModule := Some ex_unicode_stub, mUserData := Some (PyOpaque 7)\<rparr>"

definition ex_missing_env :: env where
  "ex_missing_env =
     ex_env\<lparr>AiUniverseGetOptions :=
       Some \<lparr>plugin_searchpath = ''/plugins'', procedural_searchpath = ''/missing:[ENVX]''\<rparr>\<rparr>"

definition ex_missing_node :: AtNode where
  "ex_missing_node =
     \<lparr>param_name = ''proc1'', param_data = ''nofile.py'', param_script = ''nofile.py'',
      param_verbose = Some False\<rparr>"

section \<open>Properties\<close>

subsection \<open>The method and its run over the list of segments\<close>

lemma str_find_None: "str_find s c pos = None \<longleftrightarrow> c \<notin> set (drop pos s)"
  by (simp add: str_find_def)

lemma split_path_no_sep: "sep \<notin> set s \<Longrightarrow> split_path sep s = [s]"
  by (subst split_path.simps) simp

lemma split_path_at_find:
  assumes "str_find s c p0 = Some p1"
  shows "split_path c (drop p0 s) = substr s p0 (p1 - p0) # split_path c (drop (p1 + 1) s)"
proof -
  from assms have m: "c \<in> set (drop p0 s)"
    and p: "p1 = p0 + length (takeWhile (\<lambda>x. x \<noteq> c) (drop p0 s))"
    by (auto simp: str_find_def split: if_splits)
  let ?t = "takeWhile (\<lambda>x. x \<noteq> c) (drop p0 s)"
  have t: "substr s p0 (p1 - p0) = ?t"
  proof -
    have "substr s p0 (p1 - p0) = take (length ?t) (drop p0 s)"
      using p by (simp add: substr_def)
    also have "\<dots> = ?t"
      by (rule takeWhile_eq_take[symmetric])
    finally show ?thesis .
  qed
  have "dropWhile (\<lambda>x. x \<noteq> c) (drop p0 s) = drop (length ?t) (drop p0 s)"
    by (rule dropWhile_eq_drop)
  then have d: "tl (dropWhile (\<lambda>x. x \<noteq> c) (drop p0 s)) = drop (p1 + 1) s"
    using p by (simp add: drop_Suc tl_drop add.commute)
  show ?thesis
    using m t d by (subst split_path.simps) simp
qed

lemma bracket_test:
  "path \<noteq> [] \<Longrightarrow>
   (path ! 0 = CHR ''['' \<and> path ! (length path - 1) = CHR '']'') = is_env_segment path"
  apply (cases path)
   apply simp
  subgoal for a list
    apply (cases list)
     apply (auto simp: is_env_segment_def last_conv_nth)
    done
  done

lemma bracket_name: "substr path 1 (length path - 2) = env_name path"
  by (simp add: substr_def env_name_def butlast_conv_take drop_Suc numeral_2_eq_2)

lemma findInPath_from_segments:
  "findInPath_from e fuel procpath script p0 =
     findInPath_segments e fuel (split_path (gsPathSep e) (drop p0 procpath)) script"
proof (induction fuel arbitrary: procpath p0)
  case 0
  show ?case by (subst findInPath_from.simps) simp
next
  case (Suc depth)
  have nested: "findInPath_from e depth envv script 0 =
      findInPath_segments e depth (split_path (gsPathSep e) envv) script" for envv
    using Suc.IH[of envv 0] by simp
  show ?case
  proof (induction "length procpath - p0" arbitrary: p0 rule: less_induct)
    case less
    show ?case
    proof (cases "str_find procpath (gsPathSep e) p0")
      case None
      define P where "P = substr_from procpath p0"
      have sp: "split_path (gsPathSep e) (drop p0 procpath) = [P]"
        using None by (simp add: str_find_None split_path_no_sep P_def substr_from_def)
      show ?thesis
      proof (cases "P = []")
        case True
        then show ?thesis
          by (subst findInPath_from.simps)
             (simp only: nat.case option.case None sp Let_def flip: P_def, simp)
      next
        case False
        note bt = bracket_test[OF False]
        show ?thesis
          apply (subst findInPath_from.simps)
          apply (simp only: nat.case option.case None sp Let_def bt bracket_name flip: P_def)
          apply (simp add: False nested split: option.splits)
          done
      qed
    next
      case (Some p1)
      define P where "P = substr procpath p0 (p1 - p0)"
      have sp: "split_path (gsPathSep e) (drop p0 procpath) =
          P # split_path (gsPathSep e) (drop (p1 + 1) procpath)"
        using split_path_at_find[OF Some] by (simp add: P_def)
      have "length procpath - (p1 + 1) < length procpath - p0"
        using str_find_bounds[OF Some] by arith
      then have loop: "findInPath_from e (Suc depth) procpath script (p1 + 1) =
          findInPath_segments e (Suc depth) (split_path (gsPathSep e) (drop (p1 + 1) procpath)) script"
        by (rule less.hyps)
      show ?thesis
      proof (cases "P = []")
        case True
        then show ?thesis
          by (subst findInPath_from.simps)
             (simp only: nat.case option.case Some sp Let_def flip: P_def, simp add: loop[simplified])
      next
        case False
        note bt = bracket_test[OF False]
        show ?thesis
          apply (subst findInPath_from.simps)
          apply (simp only: nat.case option.case Some sp Let_def bt bracket_name flip: P_def)
          apply (simp add: False nested loop[simplified] split: option.splits)
          done
      qed
    qed
  qed
qed

lemma findInPath_segments_eq:
  "findInPath e fuel procpath script =
     findInPath_segments e fuel (split_path (gsPathSep e) procpath) script"
  by (simp add: findInPath_def findInPath_from_segments)

text \<open>
  On a search path of directories only, the result is the first non-empty segment, from the
  left, under which the file passes the file test of the source.
\<close>

lemma findInPath_segments_directories:
  assumes "\<And>seg. seg \<in> set segs \<Longrightarrow> \<not> is_env_segment seg"
  shows "findInPath_segments e (Suc d) segs f =
     Some (map_option (\<lambda>seg. seg @ ''/'' @ f)
       (find (\<lambda>seg. seg \<noteq> [] \<and> stat_isreg e (seg @ ''/'' @ f)) segs))"
  using assms by (induction segs) auto

lemma findInPath_directories_first_match:
  assumes "\<And>seg. seg \<in> set (split_path (gsPathSep e) procpath) \<Longrightarrow> \<not> is_env_segment seg"
  shows "findInPath e (Suc d) procpath script =
     Some (map_option (\<lambda>seg. seg @ ''/'' @ script)
       (find (\<lambda>seg. seg \<noteq> [] \<and> stat_isreg e (seg @ ''/'' @ script))
          (split_path (gsPathSep e) procpath)))"
  using findInPath_segments_directories[OF assms]
  by (simp add: findInPath_def findInPath_from_segments)

lemma findInPath_segments_mono:
  "findInPath_segments e d segs f = Some r \<Longrightarrow> d \<le> d' \<Longrightarrow> findInPath_segments e d' segs f = Some r"
proof (induction e d segs f arbitrary: d' r rule: findInPath_segments.induct)
  case (1 e segs f)
  then show ?case by simp
next
  case (2 e depth f)
  then show ?case by (cases d') auto
next
  case (3 e depth seg segs f)
  from "3.prems"(2) obtain k where d': "d' = Suc k" and k: "depth \<le> k"
    by (cases d') auto
  note run = "3.prems"(1)
  have le: "Suc depth \<le> d'" by (rule "3.prems"(2))
  show ?case
  proof (cases "seg = []")
    case True
    from run True have "findInPath_segments e (Suc depth) segs f = Some r" by simp
    from "3.IH"(1)[OF True this le] show ?thesis using True d' by simp
  next
    case ne: False
    show ?thesis
    proof (cases "is_env_segment seg")
      case False
      show ?thesis
      proof (cases "stat_isreg e (seg @ ''/'' @ f)")
        case True
        then show ?thesis using run ne False d' by simp
      next
        case nf: False
        from run ne False nf have "findInPath_segments e (Suc depth) segs f = Some r" by simp
        from "3.IH"(5)[OF ne False nf this le] show ?thesis using ne False nf d' by simp
      qed
    next
      case True
      show ?thesis
      proof (cases "getenv e (env_name seg)")
        case None
        from run ne True None have "findInPath_segments e (Suc depth) segs f = Some r" by simp
        from "3.IH"(2)[OF ne True None this le] show ?thesis using ne True None d' by simp
      next
        case (Some v)
        show ?thesis
        proof (cases "findInPath_segments e depth (split_path (gsPathSep e) v) f")
          case None
          then show ?thesis using run ne True Some by simp
        next
          case inner: (Some r')
          have up: "findInPath_segments e k (split_path (gsPathSep e) v) f = Some r'"
            by (rule "3.IH"(3)[OF ne True Some inner k])
          show ?thesis
          proof (cases r')
            case None
            from run ne True Some inner None
            have "findInPath_segments e (Suc depth) segs f = Some r" by simp
            from "3.IH"(4)[OF ne True Some inner None this le]
            show ?thesis using ne True Some up None d' by simp
          next
            case found: (Some p)
            from run ne True Some inner found have "r = Some p" by simp
            then show ?thesis using ne True Some up found d' by simp
          qed
        qed
      qed
    qed
  qed
qed

lemma findInPath_segments_zero: "findInPath_segments e d segs f = Some r \<Longrightarrow> 0 < d"
  by (cases d) auto

lemma segments_terminate:
  assumes "\<And>seg v. seg \<in> set segs \<Longrightarrow> is_env_segment seg \<Longrightarrow>
             getenv e (env_name seg) = Some v \<Longrightarrow>
             \<exists>d r. findInPath_segments e d (split_path (gsPathSep e) v) f = Some r"
  shows "\<exists>d r. findInPath_segments e d segs f = Some r"
  using assms
proof (induction segs)
  case Nil
  have "findInPath_segments e (Suc 0) [] f = Some None" by simp
  then show ?case by blast
next
  case (Cons seg segs)
  have "\<exists>d r. findInPath_segments e d segs f = Some r"
    by (rule Cons.IH) (use Cons.prems in auto)
  then obtain d1 r1 where rest: "findInPath_segments e d1 segs f = Some r1" by blast
  show ?case
  proof (cases "seg \<noteq> [] \<and> is_env_segment seg \<and> getenv e (env_name seg) \<noteq> None")
    case False
    obtain k where k: "d1 = Suc k"
      using findInPath_segments_zero[OF rest] by (cases d1) auto
    have "\<exists>r. findInPath_segments e (Suc k) (seg # segs) f = Some r"
      using False rest k by (auto split: option.splits)
    then show ?thesis by blast
  next
    case True
    then obtain v where ne: "seg \<noteq> []" and br: "is_env_segment seg"
      and v: "getenv e (env_name seg) = Some v" by auto
    from Cons.prems[of seg v] br v
    obtain d2 r2 where inner: "findInPath_segments e d2 (split_path (gsPathSep e) v) f = Some r2"
      by auto
    let ?k = "max d1 d2"
    have i': "findInPath_segments e ?k (split_path (gsPathSep e) v) f = Some r2"
      by (rule findInPath_segments_mono[OF inner]) simp
    have r': "findInPath_segments e (Suc ?k) segs f = Some r1"
      by (rule findInPath_segments_mono[OF rest]) simp
    have "\<exists>r. findInPath_segments e (Suc ?k) (seg # segs) f = Some r"
      using ne br v i' r' by (cases r2) auto
    then show ?thesis by blast
  qed
qed

lemma reachable_direct: "n \<in> refs_of_path e procpath \<Longrightarrow> n \<in> reachable e procpath"
  by (auto simp: reachable_def)

lemma reachable_step:
  "n \<in> reachable e procpath \<Longrightarrow> (n', n) \<in> var_refs e \<Longrightarrow> n' \<in> reachable e procpath"
  by (auto simp: reachable_def intro: converse_rtrancl_into_rtrancl)

lemma variable_terminates:
  assumes "wf (var_refs e \<inter> reachable e procpath \<times> reachable e procpath)"
  shows "n \<in> reachable e procpath \<Longrightarrow> getenv e n = Some v \<Longrightarrow>
         \<exists>d r. findInPath_segments e d (split_path (gsPathSep e) v) f = Some r"
  using assms
proof (induction n arbitrary: v rule: wf_induct_rule)
  case (less n)
  show ?case
  proof (rule segments_terminate)
    fix seg v'
    assume seg: "seg \<in> set (split_path (gsPathSep e) v)" "is_env_segment seg"
      and v': "getenv e (env_name seg) = Some v'"
    from seg less.prems(2) have r: "(env_name seg, n) \<in> var_refs e"
      by (auto simp: var_refs_def refs_of_path_def)
    with less.prems(1) have "env_name seg \<in> reachable e procpath"
      by (rule reachable_step)
    with r less.prems(1) v' show "\<exists>d r. findInPath_segments e d (split_path (gsPathSep e) v') f = Some r"
      by (intro less.IH) auto
  qed
qed

lemma finite_var_refs:
  assumes "finite (dom (getenv e))"
  shows "finite (var_refs e)"
proof -
  have "var_refs e \<subseteq>
      (\<Union>n \<in> dom (getenv e).
         (\<lambda>seg. (env_name seg, n)) ` set (split_path (gsPathSep e) (the (getenv e n))))"
    by (auto simp: var_refs_def refs_of_path_def)
  moreover have "finite \<dots>" using assms by auto
  ultimately show ?thesis by (rule finite_subset)
qed

lemma acyclic_env_terminates:
  assumes "finite (dom (getenv e))"
    and "acyclic (var_refs e \<inter> reachable e procpath \<times> reachable e procpath)"
  shows "\<exists>fuel r. findInPath e fuel procpath script = Some r"
proof -
  have "finite (var_refs e \<inter> reachable e procpath \<times> reachable e procpath)"
    using finite_var_refs[OF assms(1)] by simp
  then have wf: "wf (var_refs e \<inter> reachable e procpath \<times> reachable e procpath)"
    using assms(2) by (simp add: finite_acyclic_wf)
  have "\<exists>d r. findInPath_segments e d (split_path (gsPathSep e) procpath) script = Some r"
  proof (rule segments_terminate)
    fix seg v
    assume "seg \<in> set (split_path (gsPathSep e) procpath)" "is_env_segment seg"
    then have "env_name seg \<in> reachable e procpath"
      by (intro reachable_direct) (auto simp: refs_of_path_def)
    moreover assume "getenv e (env_name seg) = Some v"
    ultimately show "\<exists>d r. findInPath_segments e d (split_path (gsPathSep e) v) script = Some r"
      by (rule variable_terminates[OF wf])
  qed
  then show ?thesis
    by (simp add: findInPath_def findInPath_from_segments)
qed

lemma no_file_never_found:
  assumes "\<And>p. \<not> stat_isreg e (p @ ''/'' @ f)"
  shows "findInPath_segments e d segs f \<noteq> Some (Some p)"
  using assms
proof (induction e d segs f arbitrary: p rule: findInPath_segments.induct)
  case (1 e segs f)
  show ?case by simp
next
  case (2 e depth f)
  show ?case by simp
next
  case (3 e depth seg segs f)
  note nofile = "3.prems"
  show ?case
  proof (cases "seg = []")
    case True
    then show ?thesis using "3.IH"(1)[OF True nofile] by simp
  next
    case ne: False
    show ?thesis
    proof (cases "is_env_segment seg")
      case False
      have nf: "\<not> stat_isreg e (seg @ ''/'' @ f)" by (rule nofile)
      show ?thesis using "3.IH"(5)[OF ne False nf nofile] ne False nf by simp
    next
      case True
      show ?thesis
      proof (cases "getenv e (env_name seg)")
        case None
        then show ?thesis using "3.IH"(2)[OF ne True None nofile] ne True by simp
      next
        case (Some v)
        show ?thesis
        proof (cases "findInPath_segments e depth (split_path (gsPathSep e) v) f")
          case None
          then show ?thesis using ne True Some by simp
        next
          case inner: (Some r')
          show ?thesis
          proof (cases r')
            case None
            then show ?thesis
              using "3.IH"(4)[OF ne True Some inner None nofile] ne True Some inner by simp
          next
            case found: (Some q)
            have "findInPath_segments e depth (split_path (gsPathSep e) v) f \<noteq> Some (Some q)"
              by (rule "3.IH"(3)[OF ne True Some nofile])
            then show ?thesis using inner found by simp
          qed
        qed
      qed
    qed
  qed
qed

lemma bracketed_is_env_segment: "is_env_segment (''['' @ n @ '']'')"
  by (simp add: is_env_segment_def)

lemma bracketed_env_name: "env_name (''['' @ n @ '']'') = n"
  by (simp add: env_name_def butlast_append)

lemma self_reference_runs_out:
  assumes v: "getenv e n = Some v"
    and self: "''['' @ n @ '']'' \<in> set (split_path (gsPathSep e) v)"
    and nofile: "\<And>p. \<not> stat_isreg e (p @ ''/'' @ f)"
  shows "''['' @ n @ '']'' \<in> set segs \<Longrightarrow> findInPath_segments e d segs f = None"
proof (induction d arbitrary: segs)
  case 0
  show ?case by simp
next
  case (Suc d)
  have inner: "findInPath_segments e d (split_path (gsPathSep e) v) f = None"
    by (rule Suc.IH[OF self])
  from Suc.prems show ?case
  proof (induction segs)
    case Nil
    then show ?case by simp
  next
    case (Cons seg segs)
    show ?case
    proof (cases "seg = ''['' @ n @ '']''")
      case True
      then show ?thesis
        using v inner bracketed_is_env_segment[of n] bracketed_env_name[of n] by simp
    next
      case False
      then have "''['' @ n @ '']'' \<in> set segs" using Cons.prems by simp
      then have rest: "findInPath_segments e (Suc d) segs f = None" by (rule Cons.IH)
      show ?thesis
        using rest nofile no_file_never_found[OF nofile, of d]
        by (auto split: option.splits)
    qed
  qed
qed

subsection \<open>What resolution returns\<close>

lemma regular_has_bit:
  assumes "st_mode AND S_IFMT = S_IFREG"
  shows "st_mode AND S_IFREG \<noteq> 0"
proof -
  have "S_IFMT AND S_IFREG = S_IFREG"
    by (simp add: S_IFMT_def S_IFREG_def)
  then have "st_mode AND S_IFREG = (st_mode AND S_IFMT) AND S_IFREG"
    by (simp add: and.assoc)
  also have "\<dots> = S_IFREG"
    using assms by simp
  finally show ?thesis
    by (simp add: S_IFREG_def)
qed

lemma file_test_agrees:
  assumes "only_regular_files_pass e f"
  shows "stat_isreg e (dir @ ''/'' @ f) = is_regular_file e (dir @ ''/'' @ f)"
proof (cases "stat e (dir @ ''/'' @ f)")
  case None
  then show ?thesis by (simp only: stat_isreg_def is_regular_file_def option.case)
next
  case (Some m)
  from assms Some have "m AND S_IFREG \<noteq> 0 \<longrightarrow> m AND S_IFMT = S_IFREG"
    unfolding only_regular_files_pass_def by blast
  with regular_has_bit[of m] have "(m AND S_IFREG \<noteq> 0) = (m AND S_IFMT = S_IFREG)"
    by blast
  with Some show ?thesis by (simp only: stat_isreg_def is_regular_file_def option.case)
qed

lemma findInPath_segments_sound:
  assumes "only_regular_files_pass e f"
  shows "findInPath_segments e d segs f = Some r \<Longrightarrow> resolve_spec e f segs r"
  using assms
proof (induction e d segs f arbitrary: r rule: findInPath_segments.induct)
  case (1 e segs f)
  then show ?case by simp
next
  case (2 e depth f)
  then show ?case by (auto intro: resolve_spec.NoSegmentLeft)
next
  case (3 e depth seg segs f)
  note run = "3.prems"(1)
  note exact = "3.prems"(2)
  have ft: "stat_isreg e (p @ ''/'' @ f) = is_regular_file e (p @ ''/'' @ f)" for p
    using exact by (rule file_test_agrees)
  show ?case
  proof (cases "seg = []")
    case True
    from run True have "findInPath_segments e (Suc depth) segs f = Some r" by simp
    from "3.IH"(1)[OF True this exact] show ?thesis
      using True by (auto intro: resolve_spec.EmptySegment)
  next
    case ne: False
    show ?thesis
    proof (cases "is_env_segment seg")
      case False
      show ?thesis
      proof (cases "stat_isreg e (seg @ ''/'' @ f)")
        case True
        with run ne False have r: "r = Some (seg @ ''/'' @ f)" by simp
        from True ft[of seg] have "is_regular_file e (seg @ ''/'' @ f)" by blast
        then have "resolve_spec e f (seg # segs) (Some (seg @ ''/'' @ f))"
          by (rule resolve_spec.DirectoryMatch[OF ne False])
        then show ?thesis by (simp only: r)
      next
        case nf: False
        from run ne False nf have rest: "findInPath_segments e (Suc depth) segs f = Some r"
          by simp
        from nf ft[of seg] have "\<not> is_regular_file e (seg @ ''/'' @ f)" by blast
        moreover from "3.IH"(5)[OF ne False nf rest exact] have "resolve_spec e f segs r" .
        ultimately show ?thesis
          by (rule resolve_spec.DirectoryNoMatch[OF ne False])
      qed
    next
      case True
      show ?thesis
      proof (cases "getenv e (env_name seg)")
        case None
        from run ne True None have "findInPath_segments e (Suc depth) segs f = Some r" by simp
        from "3.IH"(2)[OF ne True None this exact] show ?thesis
          using ne True None by (auto intro: resolve_spec.VariableUnset)
      next
        case (Some v)
        show ?thesis
        proof (cases "findInPath_segments e depth (split_path (gsPathSep e) v) f")
          case None
          then show ?thesis using run ne True Some by simp
        next
          case inner: (Some r')
          have in_spec: "resolve_spec e f (split_path (gsPathSep e) v) r'"
            by (rule "3.IH"(3)[OF ne True Some inner exact])
          show ?thesis
          proof (cases r')
            case None
            from run ne True Some inner None
            have "findInPath_segments e (Suc depth) segs f = Some r" by simp
            from "3.IH"(4)[OF ne True Some inner None this exact]
            have "resolve_spec e f segs r" .
            with in_spec None show ?thesis
              using ne True Some by (auto intro: resolve_spec.VariableNoMatch)
          next
            case found: (Some p)
            from run ne True Some inner found have "r = Some p" by simp
            with in_spec found show ?thesis
              using ne True Some by (auto intro: resolve_spec.VariableMatch)
          qed
        qed
      qed
    qed
  qed
qed

lemma resolve_spec_complete:
  assumes "only_regular_files_pass e f"
  shows "resolve_spec e f segs r \<Longrightarrow> \<exists>d. findInPath_segments e d segs f = Some r"
proof (induction rule: resolve_spec.induct)
  case NoSegmentLeft
  have "findInPath_segments e (Suc 0) [] f = Some None" by simp
  then show ?case by blast
next
  case (EmptySegment segs r)
  then obtain d where d: "findInPath_segments e d segs f = Some r" by blast
  then obtain k where "d = Suc k"
    using findInPath_segments_zero[OF d] by (cases d) auto
  with d have "findInPath_segments e (Suc k) ([] # segs) f = Some r" by simp
  then show ?case by blast
next
  case (VariableUnset seg segs r)
  then obtain d where d: "findInPath_segments e d segs f = Some r" by blast
  then obtain k where "d = Suc k"
    using findInPath_segments_zero[OF d] by (cases d) auto
  with d VariableUnset.hyps have "findInPath_segments e (Suc k) (seg # segs) f = Some r" by simp
  then show ?case by blast
next
  case (VariableMatch seg v p segs)
  then obtain d where "findInPath_segments e d (split_path (gsPathSep e) v) f = Some (Some p)"
    by blast
  with VariableMatch.hyps have "findInPath_segments e (Suc d) (seg # segs) f = Some (Some p)"
    by simp
  then show ?case by blast
next
  case (VariableNoMatch seg v segs r)
  then obtain d1 d2 where d1: "findInPath_segments e d1 (split_path (gsPathSep e) v) f = Some None"
    and d2: "findInPath_segments e d2 segs f = Some r" by blast
  let ?k = "max d1 d2"
  have i: "findInPath_segments e ?k (split_path (gsPathSep e) v) f = Some None"
    by (rule findInPath_segments_mono[OF d1]) simp
  have r: "findInPath_segments e (Suc ?k) segs f = Some r"
    by (rule findInPath_segments_mono[OF d2]) simp
  from i r VariableNoMatch.hyps
  have "findInPath_segments e (Suc ?k) (seg # segs) f = Some r" by simp
  then show ?case by blast
next
  case (DirectoryMatch seg segs)
  have ft: "stat_isreg e (seg @ ''/'' @ f) = is_regular_file e (seg @ ''/'' @ f)"
    using assms by (rule file_test_agrees)
  from DirectoryMatch.hyps ft have "stat_isreg e (seg @ ''/'' @ f)"
    by blast
  with DirectoryMatch
  have "findInPath_segments e (Suc 0) (seg # segs) f = Some (Some (seg @ ''/'' @ f))" by simp
  then show ?case by blast
next
  case (DirectoryNoMatch seg segs r)
  then obtain d where d: "findInPath_segments e d segs f = Some r" by blast
  then obtain k where k: "d = Suc k"
    using findInPath_segments_zero[OF d] by (cases d) auto
  have ft: "stat_isreg e (seg @ ''/'' @ f) = is_regular_file e (seg @ ''/'' @ f)"
    using assms by (rule file_test_agrees)
  from DirectoryNoMatch.hyps ft have "\<not> stat_isreg e (seg @ ''/'' @ f)"
    by blast
  with d k DirectoryNoMatch.hyps
  have "findInPath_segments e (Suc k) (seg # segs) f = Some r" by simp
  then show ?case by blast
qed

text \<open>
  Claim C3 as stated fails, in two ways. The file test of the source passes for the socket
  \<^verbatim>\<open>/sock/s.py\<close>, whose mode has the bit of \<^verbatim>\<open>S_IFREG\<close>: resolution returns it as the match,
  though it is no regular file and the specification's algorithm has the result \<open>NotFound\<close>.
  And where no segment matches, resolution need not fail with \<open>NotFound\<close>: on the search path
  \<^verbatim>\<open>/a:[LOOP]\<close>, in a file system without any file, it does not return at all, whatever depth
  is allowed.
\<close>

theorem findInPath_takes_socket_and_need_not_return:
  "findInPath ex_socket_env (Suc 0) ''/sock'' ''s.py'' = Some (Some ''/sock/s.py'') \<and>
   \<not> is_regular_file ex_socket_env ''/sock/s.py'' \<and>
   resolve_spec ex_socket_env ''s.py'' (split_path (gsPathSep ex_socket_env) ''/sock'') None \<and>
   (\<forall>p. \<not> is_regular_file ex_loop_env p) \<and>
   (\<forall>fuel. findInPath ex_loop_env fuel ''/a:[LOOP]'' ''f.py'' = None)"
proof -
  have sep: "gsPathSep ex_socket_env = CHR '':''"
    by (simp add: ex_socket_env_def ex_env_def gsPathSep_def)
  have sp: "split_path CHR '':'' ''/sock'' = [''/sock'']"
    by (simp add: split_path.simps)
  have br: "\<not> is_env_segment ''/sock''"
    by (simp add: is_env_segment_def)
  have sock: "stat_isreg ex_socket_env ''/sock/s.py'' \<and> \<not> is_regular_file ex_socket_env ''/sock/s.py''"
    by (simp add: stat_isreg_def is_regular_file_def ex_socket_env_def S_IFREG_def S_IFMT_def)
  have run: "findInPath ex_socket_env (Suc 0) ''/sock'' ''s.py'' = Some (Some ''/sock/s.py'')"
    using sock by (simp add: findInPath_segments_eq sep sp br)
  have "resolve_spec ex_socket_env ''s.py'' [''/sock''] None"
    using sock br
    by (auto intro!: resolve_spec.DirectoryNoMatch resolve_spec.NoSegmentLeft)
  then have spec: "resolve_spec ex_socket_env ''s.py''
      (split_path (gsPathSep ex_socket_env) ''/sock'') None"
    by (simp add: sep sp)
  have nofile: "\<not> is_regular_file ex_loop_env p" for p
    by (simp add: is_regular_file_def ex_loop_env_def)
  have nomatch: "\<not> stat_isreg ex_loop_env (p @ ''/'' @ ''f.py'')" for p
    by (simp add: stat_isreg_def ex_loop_env_def)
  have lsep: "gsPathSep ex_loop_env = CHR '':''"
    by (simp add: ex_loop_env_def ex_env_def gsPathSep_def)
  have v: "getenv ex_loop_env ''LOOP'' = Some ''/q:[LOOP]''"
    by (simp add: ex_loop_env_def)
  have in_v: "''['' @ ''LOOP'' @ '']'' \<in> set (split_path (gsPathSep ex_loop_env) ''/q:[LOOP]'')"
    by (simp add: lsep split_path.simps)
  have in_p: "''['' @ ''LOOP'' @ '']'' \<in> set (split_path (gsPathSep ex_loop_env) ''/a:[LOOP]'')"
    by (simp add: lsep split_path.simps)
  have "findInPath ex_loop_env fuel ''/a:[LOOP]'' ''f.py'' = None" for fuel
    unfolding findInPath_segments_eq
    by (rule self_reference_runs_out[OF v in_v nomatch in_p])
  with run sock spec nofile show ?thesis by blast
qed

text \<open>
  Claim C3, as amended. Take a file system and a filename such that every entry of that name
  whose mode has the bit of \<^verbatim>\<open>S_IFREG\<close> is a regular file (\<open>only_regular_files_pass\<close>: no
  socket of that name in any directory). Then, for every search path, \<^verbatim>\<open>findInPath\<close> returns
  a result, at some depth of recursion, exactly when the specification's algorithm
  \<open>resolve_spec\<close> has that result on the segments of the path:
  the segments scanned from left to right, empty ones skipped, a segment \<^verbatim>\<open>[NAME]\<close> resolved
  against the value of the variable \<^verbatim>\<open>NAME\<close> and skipped when the variable is unset, any other
  segment a match when \<open>segment/filename\<close> is a regular file, the last segment treated like
  the others, and \<open>NotFound\<close> when no segment matches.
\<close>

theorem findInPath_returns_what_resolve_spec_yields:
  "only_regular_files_pass e script \<longrightarrow>
     ((\<exists>fuel. findInPath e fuel procpath script = Some r) \<longleftrightarrow>
      resolve_spec e script (split_path (gsPathSep e) procpath) r)"
proof (intro impI iffI)
  assume exact: "only_regular_files_pass e script"
  assume "\<exists>fuel. findInPath e fuel procpath script = Some r"
  then obtain fuel
    where "findInPath_segments e fuel (split_path (gsPathSep e) procpath) script = Some r"
    by (auto simp: findInPath_segments_eq)
  then show "resolve_spec e script (split_path (gsPathSep e) procpath) r"
    by (rule findInPath_segments_sound[OF exact])
next
  assume exact: "only_regular_files_pass e script"
  assume "resolve_spec e script (split_path (gsPathSep e) procpath) r"
  then have "\<exists>d. findInPath_segments e d (split_path (gsPathSep e) procpath) script = Some r"
    by (rule resolve_spec_complete[OF exact])
  then show "\<exists>fuel. findInPath e fuel procpath script = Some r"
    by (simp add: findInPath_segments_eq)
qed

text \<open>
  On the path \<^verbatim>\<open>/a::[W]\<close>: the directory \<^verbatim>\<open>/a\<close> has no such file, the empty segment is
  skipped, and the last segment leads through \<^verbatim>\<open>W\<close> and \<^verbatim>\<open>V\<close> to \<^verbatim>\<open>/y/f.py\<close>. On the path
  \<^verbatim>\<open>/a:/b\<close> no segment matches.
\<close>

theorem findInPath_returns_what_resolve_spec_yields_witness:
  "only_regular_files_pass ex_env ''f.py'' \<and>
   findInPath ex_env (Suc (Suc (Suc 0))) ''/a::[W]'' ''f.py'' = Some (Some ''/y/f.py'') \<and>
   resolve_spec ex_env ''f.py'' [''/a'', [], ''[W]''] (Some ''/y/f.py'') \<and>
   findInPath ex_env (Suc 0) ''/a:/b'' ''f.py'' = Some None \<and>
   resolve_spec ex_env ''f.py'' [''/a'', ''/b''] None"
proof -
  have exact: "only_regular_files_pass ex_env ''f.py''"
    by (simp add: only_regular_files_pass_def ex_env_def S_IFREG_def S_IFMT_def)
  have sep: "gsPathSep ex_env = CHR '':''"
    by (simp add: ex_env_def gsPathSep_def)
  have sp1: "split_path CHR '':'' ''/a::[W]'' = [''/a'', [], ''[W]'']"
    by (simp add: split_path.simps)
  have sp2: "split_path CHR '':'' ''/a:/b'' = [''/a'', ''/b'']"
    by (simp add: split_path.simps)
  have g: "getenv ex_env ''W'' = Some ''/w:[V]''" "getenv ex_env ''V'' = Some ''/x:/y''"
    by (simp_all add: ex_env_def)
  have st: "stat_isreg ex_env p = (p = ''/y/f.py'')" for p
    by (simp add: stat_isreg_def ex_env_def S_IFREG_def)
  have run1: "findInPath ex_env (Suc (Suc (Suc 0))) ''/a::[W]'' ''f.py'' = Some (Some ''/y/f.py'')"
    by (simp add: findInPath_segments_eq sep sp1 split_path.simps is_env_segment_def
        env_name_def g st)
  have run2: "findInPath ex_env (Suc 0) ''/a:/b'' ''f.py'' = Some None"
    by (simp add: findInPath_segments_eq sep sp2 is_env_segment_def st)
  from exact run1 run2 show ?thesis
    using findInPath_returns_what_resolve_spec_yields
        [where e = ex_env and procpath = "''/a::[W]''" and script = "''f.py''"
           and r = "Some ''/y/f.py''"]
      findInPath_returns_what_resolve_spec_yields
        [where e = ex_env and procpath = "''/a:/b''" and script = "''f.py''" and r = None]
    unfolding sep sp1 sp2 by blast
qed

subsection \<open>When resolution returns\<close>

text \<open>
  Claim C9 as stated fails in its last part. The value of \<^verbatim>\<open>LOOP\<close> has the segment
  \<^verbatim>\<open>[LOOP]\<close>, its own bracketed name, and yet resolving the search path \<^verbatim>\<open>[LOOP]\<close> returns
  at depth two: the directory \<^verbatim>\<open>/y\<close>, which comes first in the value, holds the file, and the
  match ends the scan before the variable is read again.
\<close>

theorem self_reference_behind_a_match_returns:
  "getenv ex_selfref_env ''LOOP'' = Some ''/y:[LOOP]'' \<and>
   ''[LOOP]'' \<in> set (split_path (gsPathSep ex_selfref_env) ''/y:[LOOP]'') \<and>
   (''LOOP'', ''LOOP'') \<in> var_refs ex_selfref_env \<and>
   findInPath ex_selfref_env (Suc (Suc 0)) ''[LOOP]'' ''f.py'' = Some (Some ''/y/f.py'')"
proof -
  have sep: "gsPathSep ex_selfref_env = CHR '':''"
    by (simp add: ex_selfref_env_def ex_env_def gsPathSep_def)
  have v: "getenv ex_selfref_env ''LOOP'' = Some ''/y:[LOOP]''"
    by (simp add: ex_selfref_env_def)
  have sp: "split_path CHR '':'' ''/y:[LOOP]'' = [''/y'', ''[LOOP]'']"
    by (simp add: split_path.simps)
  have br: "is_env_segment ''[LOOP]'' \<and> env_name ''[LOOP]'' = ''LOOP''"
    by (simp add: is_env_segment_def env_name_def)
  have refs: "(''LOOP'', ''LOOP'') \<in> var_refs ex_selfref_env"
    unfolding var_refs_def refs_of_path_def sep
    using v sp br by auto
  have run: "findInPath ex_selfref_env (Suc (Suc 0)) ''[LOOP]'' ''f.py'' = Some (Some ''/y/f.py'')"
    by (simp add: findInPath_def findInPath_from_segments sep v sp br split_path.simps)
       (simp add: ex_selfref_env_def ex_env_def is_env_segment_def stat_isreg_def S_IFREG_def)
  show ?thesis
    using v sp refs run by (simp add: sep)
qed

text \<open>
  Claim C9, as amended. \<^verbatim>\<open>findInPath\<close> returns for every search path when the indirection
  between the variables that the path can come to is acyclic (the environment holding finitely
  many variables): some depth of recursion is enough. The recursion has no guard against a
  cycle: when the file is found under no directory and the value of a variable has that
  variable's own bracketed name as a segment, resolving a path with that segment does not
  return, whatever depth is allowed.
\<close>

theorem findInPath_termination:
  "(finite (dom (getenv e)) \<and>
    acyclic (var_refs e \<inter> reachable e procpath \<times> reachable e procpath) \<longrightarrow>
      (\<exists>fuel r. findInPath e fuel procpath script = Some r)) \<and>
   (getenv e n = Some v \<and>
    ''['' @ n @ '']'' \<in> set (split_path (gsPathSep e) v) \<and>
    ''['' @ n @ '']'' \<in> set (split_path (gsPathSep e) procpath) \<and>
    (\<forall>p. \<not> stat_isreg e (p @ ''/'' @ script)) \<longrightarrow>
      (\<forall>fuel. findInPath e fuel procpath script = None))"
proof (intro conjI impI allI)
  assume "finite (dom (getenv e)) \<and>
    acyclic (var_refs e \<inter> reachable e procpath \<times> reachable e procpath)"
  then show "\<exists>fuel r. findInPath e fuel procpath script = Some r"
    using acyclic_env_terminates by blast
next
  fix fuel
  assume a: "getenv e n = Some v \<and>
    ''['' @ n @ '']'' \<in> set (split_path (gsPathSep e) v) \<and>
    ''['' @ n @ '']'' \<in> set (split_path (gsPathSep e) procpath) \<and>
    (\<forall>p. \<not> stat_isreg e (p @ ''/'' @ script))"
  then have "findInPath_segments e fuel (split_path (gsPathSep e) procpath) script = None"
    by (intro self_reference_runs_out[of e n v script]) auto
  then show "findInPath e fuel procpath script = None"
    by (simp add: findInPath_def findInPath_from_segments)
qed

lemma ex_env_dom: "dom (getenv ex_env) = {''V'', ''W''}"
  by (auto simp: ex_env_def dom_def split: if_splits)

lemma ex_split_V: "split_path CHR '':'' ''/x:/y'' = [''/x'', ''/y'']"
  by (simp add: split_path.simps)

lemma ex_split_W: "split_path CHR '':'' ''/w:[V]'' = [''/w'', ''[V]'']"
  by (simp add: split_path.simps)

lemma ex_getenv: "getenv ex_env n = Some v \<longleftrightarrow> (n = ''V'' \<and> v = ''/x:/y'') \<or> (n = ''W'' \<and> v = ''/w:[V]'')"
  by (auto simp: ex_env_def)

lemma ex_sep: "gsPathSep ex_env = CHR '':''"
  by (simp add: ex_env_def gsPathSep_def)

lemma ex_var_refs: "var_refs ex_env = {(''V'', ''W'')}"
  unfolding var_refs_def refs_of_path_def ex_getenv ex_sep
  apply (auto simp: ex_split_V ex_split_W is_env_segment_def env_name_def)
  apply (rule exI[of _ "''[V]''"])
  apply simp
  done

theorem findInPath_termination_witness:
  "(\<exists>fuel r. findInPath ex_env fuel ''/a::[W]'' ''f.py'' = Some r) \<and>
   (\<forall>fuel. findInPath ex_loop_env fuel ''/a:[LOOP]'' ''f.py'' = None)"
proof -
  have fin: "finite (dom (getenv ex_env))" by (simp add: ex_env_dom)
  have "acyclic ({} :: (string \<times> string) set)"
    by (simp add: acyclic_def)
  then have "acyclic (var_refs ex_env)"
    by (simp add: ex_var_refs acyclic_insert)
  then have acy: "acyclic (var_refs ex_env \<inter>
      reachable ex_env ''/a::[W]'' \<times> reachable ex_env ''/a::[W]'')"
    by (rule acyclic_subset) simp
  have loop: "getenv ex_loop_env ''LOOP'' = Some ''/q:[LOOP]'' \<and>
    ''['' @ ''LOOP'' @ '']'' \<in> set (split_path (gsPathSep ex_loop_env) ''/q:[LOOP]'') \<and>
    ''['' @ ''LOOP'' @ '']'' \<in> set (split_path (gsPathSep ex_loop_env) ''/a:[LOOP]'') \<and>
    (\<forall>p. \<not> stat_isreg ex_loop_env (p @ ''/'' @ ''f.py''))"
    by (simp add: ex_loop_env_def ex_env_def gsPathSep_def split_path.simps stat_isreg_def)
  show ?thesis
    using findInPath_termination [of ex_env "''/a::[W]''" "''f.py''" "''LOOP''" "''/q:[LOOP]''"]
      findInPath_termination [of ex_loop_env "''/a:[LOOP]''" "''f.py''" "''LOOP''" "''/q:[LOOP]''"]
      fin acy loop
    by blast
qed

subsection \<open>The module name\<close>

lemma takeWhile_all: "(\<And>x. x \<in> set xs \<Longrightarrow> P x) \<Longrightarrow> takeWhile P xs = xs"
  by (simp add: takeWhile_eq_all_conv)

lemma takeWhile_shorter:
  assumes "x \<in> set xs" and "\<not> P x"
  shows "length (takeWhile P xs) < length xs"
proof -
  have e: "takeWhile P xs = take (length (takeWhile P xs)) xs"
    by (rule takeWhile_eq_take)
  have ne: "takeWhile P xs \<noteq> xs"
    using assms by (auto simp: takeWhile_eq_all_conv)
  have "length (takeWhile P xs) \<le> length xs"
    by (rule length_takeWhile_le)
  moreover have "length (takeWhile P xs) \<noteq> length xs"
  proof
    assume "length (takeWhile P xs) = length xs"
    then have "take (length (takeWhile P xs)) xs = xs" by simp
    with e ne show False by simp
  qed
  ultimately show ?thesis by simp
qed

lemma find_last_of_basename:
  "(case find_last_of script [CHR 0x5C, CHR ''/''] of
      Some p0 \<Rightarrow> substr_from script (p0 + 1)
    | None \<Rightarrow> script) = basename script"
proof -
  let ?P = "\<lambda>c. c \<noteq> CHR 0x5C \<and> c \<noteq> CHR ''/''"
  let ?t = "takeWhile ?P (rev script)"
  have P: "(\<lambda>c. c \<notin> set [CHR 0x5C, CHR ''/'']) = ?P" by auto
  have fl: "find_last_of script [CHR 0x5C, CHR ''/''] =
      (if \<exists>c \<in> set script. \<not> ?P c then Some (length script - 1 - length ?t) else None)"
    unfolding find_last_of_def P by (simp add: list_ex_iff)
  show ?thesis
  proof (cases "\<exists>c \<in> set script. \<not> ?P c")
    case False
    then have "?t = rev script"
      by (intro takeWhile_all) auto
    then have "basename script = script"
      by (simp only: basename_def rev_rev_ident)
    with False fl show ?thesis by simp
  next
    case True
    then obtain c where "c \<in> set (rev script)" "\<not> ?P c" by auto
    then have "length ?t < length (rev script)"
      by (rule takeWhile_shorter)
    then have lt: "length ?t < length script" by simp
    have "rev ?t = rev (take (length ?t) (rev script))"
      by (rule arg_cong[OF takeWhile_eq_take])
    also have "\<dots> = drop (length script - length ?t) script"
      by (simp add: rev_take)
    finally have b: "basename script = drop (length script - length ?t) script"
      by (simp only: basename_def)
    have "length script - 1 - length ?t + 1 = length script - length ?t"
      using lt by arith
    then have "substr_from script (length script - 1 - length ?t + 1) = basename script"
      by (simp only: substr_from_def b)
    with True fl show ?thesis by simp
  qed
qed

lemma derive_modname_eq:
  "derive_modname script = ''pyproc_'' @ takeWhile (\<lambda>c. c \<noteq> CHR ''.'') (basename script)"
proof -
  let ?m = "''pyproc_'' @ basename script"
  let ?Q = "\<lambda>c. c \<noteq> CHR ''.''"
  have m: "derive_modname script =
      (case str_find ?m CHR ''.'' 0 of Some p0 \<Rightarrow> substr ?m 0 p0 | None \<Rightarrow> ?m)"
    by (simp only: derive_modname_def find_last_of_basename Let_def)
  have tw: "takeWhile ?Q ?m = ''pyproc_'' @ takeWhile ?Q (basename script)"
    by simp
  have sf: "str_find ?m CHR ''.'' 0 =
      (if CHR ''.'' \<in> set ?m then Some (length (takeWhile ?Q ?m)) else None)"
    by (simp only: str_find_def drop_0 add_0)
  show ?thesis
  proof (cases "CHR ''.'' \<in> set ?m")
    case False
    then have "takeWhile ?Q ?m = ?m"
      by (intro takeWhile_all) auto
    then have "derive_modname script = takeWhile ?Q ?m"
      using False by (simp only: m sf if_False option.case)
    then show ?thesis by (simp only: tw)
  next
    case True
    have "substr ?m 0 (length (takeWhile ?Q ?m)) = takeWhile ?Q ?m"
      unfolding substr_def drop_0 by (rule takeWhile_eq_take[symmetric])
    then have "derive_modname script = takeWhile ?Q ?m"
      using True by (simp only: m sf if_True option.case)
    then show ?thesis by (simp only: tw)
  qed
qed

lemma one_dot_strip:
  assumes "length (filter (\<lambda>c. c = CHR ''.'') name) \<le> 1"
  shows "takeWhile (\<lambda>c. c \<noteq> CHR ''.'') name = strip_extension name"
proof (cases "CHR ''.'' \<in> set name")
  case False
  then have "takeWhile (\<lambda>c. c \<noteq> CHR ''.'') name = name"
    by (intro takeWhile_all) auto
  with False show ?thesis by (simp add: strip_extension_def)
next
  case True
  then obtain a b where name: "name = a @ CHR ''.'' # b" and a: "CHR ''.'' \<notin> set a"
    by (auto dest: split_list_first)
  from assms name have "filter (\<lambda>c. c = CHR ''.'') b = []"
    by simp
  then have b: "CHR ''.'' \<notin> set b"
    by (auto simp: filter_empty_conv)
  have a': "\<And>x. x \<in> set a \<Longrightarrow> x \<noteq> CHR ''.''" using a by auto
  have b': "\<And>x. x \<in> set (rev b) \<Longrightarrow> x \<noteq> CHR ''.''" using b by auto
  have l: "takeWhile (\<lambda>c. c \<noteq> CHR ''.'') name = a"
    unfolding name by (subst takeWhile_append2) (use a' in auto)
  have r: "rev name = rev b @ CHR ''.'' # rev a"
    by (simp add: name)
  have "dropWhile (\<lambda>c. c \<noteq> CHR ''.'') (rev name) = CHR ''.'' # rev a"
    unfolding r by (subst dropWhile_append2) (use b' in auto)
  then have "strip_extension name = a"
    using True by (simp add: strip_extension_def)
  with l show ?thesis by simp
qed

text \<open>
  Claim C7, as amended. The module name is a function of the script's basename alone: the
  basename is cut at its first dot and \<^verbatim>\<open>pyproc_\<close> is put in front, so two scripts with the
  same basename in different directories get the same module name. For a basename with at
  most one dot this is the basename without its extension.
\<close>

theorem derive_modname_cuts_at_first_dot:
  "derive_modname script = ''pyproc_'' @ takeWhile (\<lambda>c. c \<noteq> CHR ''.'') (basename script) \<and>
   (basename script = basename script' \<longrightarrow> derive_modname script = derive_modname script') \<and>
   (length (filter (\<lambda>c. c = CHR ''.'') (basename script)) \<le> 1 \<longrightarrow>
      derive_modname script = derive_modname_spec script)"
  by (simp add: derive_modname_eq derive_modname_spec_def one_dot_strip)

theorem derive_modname_cuts_at_first_dot_witness:
  "basename ''/a/foo.py'' = basename ''/b/foo.py'' \<and>
   length (filter (\<lambda>c. c = CHR ''.'') (basename ''/a/foo.py'')) \<le> 1 \<and>
   derive_modname ''/a/foo.py'' = ''pyproc_foo'' \<and>
   derive_modname ''/b/foo.py'' = ''pyproc_foo'' \<and>
   derive_modname_spec ''/a/foo.py'' = ''pyproc_foo''"
  using derive_modname_cuts_at_first_dot [of "''/a/foo.py''" "''/b/foo.py''"]
  by (auto simp: basename_def)

text \<open>
  Claim C7 as stated fails for a basename with two dots: the code cuts \<^verbatim>\<open>my.proc.py\<close> down
  to \<^verbatim>\<open>my\<close>, while stripping the extension leaves \<^verbatim>\<open>my.proc\<close>.
\<close>

theorem derive_modname_two_dots:
  "derive_modname ''/a/my.proc.py'' = ''pyproc_my'' \<and>
   derive_modname_spec ''/a/my.proc.py'' = ''pyproc_my.proc''"
  by (simp add: derive_modname_def find_last_of_def str_find_def substr_def substr_from_def
      derive_modname_spec_def strip_extension_def basename_def Let_def)

subsection \<open>Running the bridge\<close>

lemmas prog_defs =
  ret_def andThen_def andNext_def AiMsgInfo_def AiMsgWarning_def AiMsgError_def
  Py_IsInitialized_def PyErr_Occurred_def PyErr_Print_def PyErr_Print_raised_def
  PyErr_Clear_def fails_def Py_INCREF_def Py_DECREF_def

lemmas api_defs =
  PyImport_ImportModule_imp_def PyObject_GetAttrString_load_source_def
  PyObject_GetAttrString_def PyObject_CallFunction_ss_def PyObject_CallFunction_def
  PyObject_CallFunction_O_def
  PyTuple_Check_def PyTuple_Size_def PyTuple_GetItem_def PyInt_AsLong_def
  PyString_Check_def PyString_AsString_def

text \<open>
  Claim C8. When the embedded runtime is not alive, each of the four exported functions logs
  a warning and returns the neutral value (\<open>0\<close>, or null for \<^verbatim>\<open>GetNode\<close>); the renderer's slot,
  the allocated bridges and the error indicator are as before the call, no bridge having
  been read or built.
\<close>

theorem runtime_not_alive:
  assumes "\<not> runtime_initialized w"
  shows "PYPROC_INIT e fuel node user_ptr w =
           Returns (0, user_ptr)
             (w\<lparr>trace := trace w @
                [AiMsg MsgWarning ''[pyproc] Init: Python not initialized'']\<rparr>) \<and>
         PYPROC_NUM_NODES e user_ptr w =
           Returns 0
             (w\<lparr>trace := trace w @
                [AiMsg MsgWarning ''[pyproc] NumNodes: Python not initialized'']\<rparr>) \<and>
         PYPROC_GET_NODE e user_ptr i w =
           Returns None
             (w\<lparr>trace := trace w @
                [AiMsg MsgWarning ''[pyproc] GetNode: Python not initialized'']\<rparr>) \<and>
         PYPROC_CLEANUP e user_ptr w =
           Returns 0
             (w\<lparr>trace := trace w @
                [AiMsg MsgWarning ''[pyproc] Cleanup: Python not initialized'']\<rparr>)"
  using assms
  by (simp add: PYPROC_INIT_def PYPROC_NUM_NODES_def PYPROC_GET_NODE_def PYPROC_CLEANUP_def
      prog_defs)

theorem runtime_not_alive_witness:
  "PYPROC_INIT ex_env 0 ex_node (Some 0) (ex_world\<lparr>runtime_initialized := False\<rparr>) =
     Returns (0, Some 0)
       (ex_world\<lparr>runtime_initialized := False,
          trace := [AiMsg MsgWarning ''[pyproc] Init: Python not initialized'']\<rparr>) \<and>
   PYPROC_NUM_NODES ex_env (Some 0) (ex_world\<lparr>runtime_initialized := False\<rparr>) =
     Returns 0
       (ex_world\<lparr>runtime_initialized := False,
          trace := [AiMsg MsgWarning ''[pyproc] NumNodes: Python not initialized'']\<rparr>) \<and>
   PYPROC_GET_NODE ex_env (Some 0) 1 (ex_world\<lparr>runtime_initialized := False\<rparr>) =
     Returns None
       (ex_world\<lparr>runtime_initialized := False,
          trace := [AiMsg MsgWarning ''[pyproc] GetNode: Python not initialized'']\<rparr>) \<and>
   PYPROC_CLEANUP ex_env (Some 0) (ex_world\<lparr>runtime_initialized := False\<rparr>) =
     Returns 0
       (ex_world\<lparr>runtime_initialized := False,
          trace := [AiMsg MsgWarning ''[pyproc] Cleanup: Python not initialized'']\<rparr>)"
  using runtime_not_alive [of "ex_world\<lparr>runtime_initialized := False\<rparr>" ex_env 0 ex_node
      "Some 0" 1]
  by (simp add: ex_world_def)








lemma init_bad_status:
  assumes "import_imp e = Some (Some ld)"
    and "ld (derive_modname (mScript dso)) (mScript dso) = Some m"
    and "m ''Init'' = Some f"
    and "f [PyString (mProcName dso)] = Some (PyTuple [st, ctx])"
    and "\<forall>n. st \<noteq> PyInt n"
  shows \<open>\<exists>w'. init e dso w = Returns (0, dso\<lparr>mModule := Some m, mUserData := Some ctx\<rparr>) w' \<and>
           take (length (trace w)) (trace w') = trace w \<and>
           filter (\<lambda>ev. ev = INCREF Var_mUserData \<or> ev = DECREF Var_mUserData \<or>
                        ev = AiMsg MsgError
                          ''[pyproc] Invalid return value for "Init" function in module "%s"'')
             (new_events w w') =
           [INCREF Var_mUserData,
            AiMsg MsgError ''[pyproc] Invalid return value for "Init" function in module "%s"'']\<close>
  using assms
  unfolding init_def Let_def new_events_def
  by (cases st) (auto simp: prog_defs api_defs)

lemma PYPROC_INIT_valid:
  assumes "runtime_initialized w"
    and "AiUniverseGetOptions e = Some opts"
    and "PythonDso_new e fuel (param_name node) (script_of e node)
           (procedural_path_of e opts) (verbose_of node) w = Returns dso0 w1"
    and "valid dso0"
    and "init e dso0 (w1\<lparr>heap := (heap w1)(next_ptr w1 := Some dso0), next_ptr := next_ptr w1 + 1\<rparr>)
           = Returns (rv, dso') w2"
  shows "PYPROC_INIT e fuel node user_ptr w =
           Returns (rv, Some (next_ptr w1)) (w2\<lparr>heap := (heap w2)(next_ptr w1 := Some dso')\<rparr>)"
  using assms
  by (simp add: PYPROC_INIT_def new_PythonDso_def store_def prog_defs)

text \<open>
  Claim C10. When the entry function returns a pair whose first component is no integer,
  \<^verbatim>\<open>init\<close> returns \<open>0\<close> and the bridge nevertheless holds the second component as its context:
  the reference was taken (one \<^verbatim>\<open>Py_INCREF\<close>, no \<^verbatim>\<open>Py_DECREF\<close>) before the error about the
  status was logged. And for a valid bridge \<^verbatim>\<open>PYPROC_INIT\<close> hands the renderer the address of
  the bridge, which stays allocated, together with whatever status \<^verbatim>\<open>init\<close> returned, \<open>0\<close>
  included.
\<close>

theorem init_keeps_context_and_handle:
  \<open>(import_imp e = Some (Some ld) \<and>
    ld (derive_modname (mScript dso)) (mScript dso) = Some m \<and>
    m ''Init'' = Some f \<and>
    f [PyString (mProcName dso)] = Some (PyTuple [st, ctx]) \<and>
    (\<forall>n. st \<noteq> PyInt n) \<longrightarrow>
      (\<exists>w'. init e dso w = Returns (0, dso\<lparr>mModule := Some m, mUserData := Some ctx\<rparr>) w' \<and>
         take (length (trace w)) (trace w') = trace w \<and>
         filter (\<lambda>ev. ev = INCREF Var_mUserData \<or> ev = DECREF Var_mUserData \<or>
                      ev = AiMsg MsgError
                        ''[pyproc] Invalid return value for "Init" function in module "%s"'')
           (new_events w w') =
         [INCREF Var_mUserData,
          AiMsg MsgError ''[pyproc] Invalid return value for "Init" function in module "%s"''])) \<and>
   (runtime_initialized w \<and>
    AiUniverseGetOptions e = Some opts \<and>
    PythonDso_new e fuel (param_name node) (script_of e node)
      (procedural_path_of e opts) (verbose_of node) w = Returns dso0 w1 \<and>
    valid dso0 \<and>
    init e dso0 (w1\<lparr>heap := (heap w1)(next_ptr w1 := Some dso0), next_ptr := next_ptr w1 + 1\<rparr>)
      = Returns (rv, dso') w2 \<longrightarrow>
      (\<exists>w'. PYPROC_INIT e fuel node user_ptr w = Returns (rv, Some (next_ptr w1)) w' \<and>
            heap w' (next_ptr w1) = Some dso'))\<close>
proof (intro conjI impI)
  assume a: "import_imp e = Some (Some ld) \<and>
    ld (derive_modname (mScript dso)) (mScript dso) = Some m \<and>
    m ''Init'' = Some f \<and>
    f [PyString (mProcName dso)] = Some (PyTuple [st, ctx]) \<and>
    (\<forall>n. st \<noteq> PyInt n)"
  show \<open>\<exists>w'. init e dso w = Returns (0, dso\<lparr>mModule := Some m, mUserData := Some ctx\<rparr>) w' \<and>
         take (length (trace w)) (trace w') = trace w \<and>
         filter (\<lambda>ev. ev = INCREF Var_mUserData \<or> ev = DECREF Var_mUserData \<or>
                      ev = AiMsg MsgError
                        ''[pyproc] Invalid return value for "Init" function in module "%s"'')
           (new_events w w') =
         [INCREF Var_mUserData,
          AiMsg MsgError ''[pyproc] Invalid return value for "Init" function in module "%s"'']\<close>
    by (rule init_bad_status [of e ld dso m f st ctx w]) (use a in auto)
next
  assume "runtime_initialized w \<and>
    AiUniverseGetOptions e = Some opts \<and>
    PythonDso_new e fuel (param_name node) (script_of e node)
      (procedural_path_of e opts) (verbose_of node) w = Returns dso0 w1 \<and>
    valid dso0 \<and>
    init e dso0 (w1\<lparr>heap := (heap w1)(next_ptr w1 := Some dso0), next_ptr := next_ptr w1 + 1\<rparr>)
      = Returns (rv, dso') w2"
  then have "PYPROC_INIT e fuel node user_ptr w =
      Returns (rv, Some (next_ptr w1)) (w2\<lparr>heap := (heap w2)(next_ptr w1 := Some dso')\<rparr>)"
    by (intro PYPROC_INIT_valid) auto
  then show "\<exists>w'. PYPROC_INIT e fuel node user_ptr w = Returns (rv, Some (next_ptr w1)) w' \<and>
            heap w' (next_ptr w1) = Some dso'"
    by simp
qed

lemma ex_PythonDso_new:
  "PythonDso_new ex_badstatus_env 0 (param_name ex_node) (script_of ex_badstatus_env ex_node)
     (procedural_path_of ex_badstatus_env
        \<lparr>plugin_searchpath = ''/plugins'', procedural_searchpath = ''/a::[W]''\<rparr>)
     (verbose_of ex_node) ex_world = Returns ex_dso ex_world"
  by (simp add: PythonDso_new_def script_of_def procedural_path_of_def verbose_of_def
      dirSepFrom_def dirSepTo_def prog_defs stat_isreg_def S_IFREG_def
      ex_badstatus_env_def ex_env_def ex_node_def ex_world_def ex_dso_def)

theorem init_keeps_context_and_handle_witness:
  \<open>(\<exists>w'. init ex_badstatus_env ex_dso ex_world =
           Returns (0, ex_dso\<lparr>mModule := Some ex_badstatus_stub,
                                mUserData := Some (PyOpaque 7)\<rparr>) w' \<and>
         filter (\<lambda>ev. ev = INCREF Var_mUserData \<or> ev = DECREF Var_mUserData \<or>
                      ev = AiMsg MsgError
                        ''[pyproc] Invalid return value for "Init" function in module "%s"'')
           (new_events ex_world w') =
         [INCREF Var_mUserData,
          AiMsg MsgError ''[pyproc] Invalid return value for "Init" function in module "%s"'']) \<and>
   (\<exists>w'. PYPROC_INIT ex_badstatus_env 0 ex_node None ex_world = Returns (0, Some 0) w' \<and>
         heap w' 0 = Some (ex_dso\<lparr>mModule := Some ex_badstatus_stub,
                                   mUserData := Some (PyOpaque 7)\<rparr>))\<close>
proof -
  let ?ld = "\<lambda>modname file. if file = ''/y/f.py'' then Some ex_badstatus_stub else None"
  let ?f = "\<lambda>args :: pyval list. Some (PyTuple [PyString ''ok'', PyOpaque 7])"
  let ?opts = "\<lparr>plugin_searchpath = ''/plugins'', procedural_searchpath = ''/a::[W]''\<rparr>"
  let ?d = "ex_dso\<lparr>mModule := Some ex_badstatus_stub, mUserData := Some (PyOpaque 7)\<rparr>"
  let ?w1 = "ex_world\<lparr>heap := (heap ex_world)(next_ptr ex_world := Some ex_dso),
                      next_ptr := next_ptr ex_world + 1\<rparr>"
  have script: "import_imp ex_badstatus_env = Some (Some ?ld) \<and>
      ?ld (derive_modname (mScript ex_dso)) (mScript ex_dso) = Some ex_badstatus_stub \<and>
      ex_badstatus_stub ''Init'' = Some ?f \<and>
      ?f [PyString (mProcName ex_dso)] = Some (PyTuple [PyString ''ok'', PyOpaque 7]) \<and>
      (\<forall>n. PyString ''ok'' \<noteq> PyInt n)"
    by (simp add: ex_badstatus_env_def ex_badstatus_stub_def ex_dso_def)
  note t = init_keeps_context_and_handle [where e = ex_badstatus_env and ld = ?ld
      and m = ex_badstatus_stub and f = ?f and st = "PyString ''ok''" and ctx = "PyOpaque 7"
      and dso = ex_dso and opts = ?opts and fuel = 0 and node = ex_node and dso0 = ex_dso
      and rv = 0 and dso' = ?d and user_ptr = None]
  from script t [where w = ?w1 and ?w1.0 = ex_world]
  obtain w2 where w2: "init ex_badstatus_env ex_dso ?w1 = Returns (0, ?d) w2"
    by blast
  have adapter: "runtime_initialized ex_world \<and>
      AiUniverseGetOptions ex_badstatus_env = Some ?opts \<and>
      PythonDso_new ex_badstatus_env 0 (param_name ex_node) (script_of ex_badstatus_env ex_node)
        (procedural_path_of ex_badstatus_env ?opts) (verbose_of ex_node) ex_world =
        Returns ex_dso ex_world \<and>
      valid ex_dso"
    by (simp add: ex_PythonDso_new)
       (simp add: ex_world_def ex_badstatus_env_def ex_env_def ex_dso_def valid_def)
  have n: "next_ptr ex_world = 0" by (simp add: ex_world_def)
  from script adapter w2 t [where w = ex_world and ?w1.0 = ex_world and ?w2.0 = w2]
  show ?thesis
    unfolding n by blast
qed







text \<open>
  Claim C2 as stated fails. On a bridge that was constructed but not initialised, and on one
  that was initialised and cleaned up, \<^verbatim>\<open>numNodes\<close> and \<^verbatim>\<open>getNode\<close> read through the null
  module reference: nothing is logged and nothing is returned.
\<close>

theorem numNodes_before_init_faults:
  "numNodes ex_env ex_dso ex_world = Fault NullDereference \<and>
   getNode ex_env ex_dso 0 ex_world = Fault NullDereference \<and>
   (\<exists>dso1 w1 dso2 w2. init ex_env ex_dso ex_world = Returns (1, dso1) w1 \<and>
       cleanup ex_env dso1 w1 = Returns (1, dso2) w2 \<and>
       numNodes ex_env dso2 w2 = Fault NullDereference \<and>
       getNode ex_env dso2 0 w2 = Fault NullDereference)"
  by (simp add: init_def cleanup_def numNodes_def getNode_def derive_modname_def find_last_of_def
      str_find_def substr_def substr_from_def Let_def prog_defs api_defs fits_long_def
      ex_env_def ex_stub_def ex_dso_def ex_world_def)

lemma numNodes_no_module: "mModule dso = None \<Longrightarrow> numNodes e dso w = Fault NullDereference"
  by (simp add: numNodes_def prog_defs api_defs)

lemma getNode_no_module: "mModule dso = None \<Longrightarrow> getNode e dso i w = Fault NullDereference"
  by (simp add: getNode_def prog_defs api_defs)

lemma numNodes_no_answer:
  assumes "mModule dso = Some m" and "mUserData dso = None \<or> m ''NumNodes'' = None"
  shows "\<exists>w'. numNodes e dso w = Returns 0 w' \<and> logged MsgError w w'"
  using assms
  unfolding numNodes_def logged_def
  by (auto simp: prog_defs api_defs split: option.splits)

lemma getNode_no_answer:
  assumes "mModule dso = Some m" and "mUserData dso = None \<or> m ''GetNode'' = None"
  shows "\<exists>w'. getNode e dso i w = Returns None w' \<and> logged MsgError w w'"
  using assms
  unfolding getNode_def logged_def
  by (auto simp: prog_defs api_defs split: option.splits)

text \<open>
  Claim C2, as amended. With no module held, \<^verbatim>\<open>numNodes\<close> and \<^verbatim>\<open>getNode\<close> read through the
  null module reference. The defensive error (a logged error and the neutral result \<open>0\<close> or
  null) is what they do while a module is held and either the context is missing (the entry
  call of \<^verbatim>\<open>init\<close> failed) or the module lacks the function.
\<close>

theorem queries_need_a_module:
  "(mModule dso = None \<longrightarrow>
      numNodes e dso w = Fault NullDereference \<and> getNode e dso i w = Fault NullDereference) \<and>
   (mModule dso = Some m \<and> (mUserData dso = None \<or> m ''NumNodes'' = None) \<longrightarrow>
      (\<exists>w'. numNodes e dso w = Returns 0 w' \<and> logged MsgError w w')) \<and>
   (mModule dso = Some m \<and> (mUserData dso = None \<or> m ''GetNode'' = None) \<longrightarrow>
      (\<exists>w'. getNode e dso i w = Returns None w' \<and> logged MsgError w w'))"
  using numNodes_no_module [of dso e w] getNode_no_module [of dso e i w]
    numNodes_no_answer [of dso m e w] getNode_no_answer [of dso m e i w]
  by blast

theorem queries_need_a_module_witness:
  "numNodes ex_env ex_dso ex_world = Fault NullDereference \<and>
   getNode ex_env ex_dso 0 ex_world = Fault NullDereference \<and>
   (\<exists>w'. numNodes ex_env (ex_dso\<lparr>mModule := Some ex_stub\<rparr>) ex_world = Returns 0 w' \<and>
         logged MsgError ex_world w') \<and>
   (\<exists>w'. getNode ex_env (ex_dso\<lparr>mModule := Some ex_stub\<rparr>) 0 ex_world = Returns None w' \<and>
         logged MsgError ex_world w')"
  using queries_need_a_module [of ex_dso ex_env ex_world 0 ex_stub]
    queries_need_a_module [of "ex_dso\<lparr>mModule := Some ex_stub\<rparr>" ex_env ex_world 0 ex_stub]
  by (auto simp: ex_dso_def)

lemma getNode_unicode:
  assumes "mModule dso = Some m"
    and "m ''GetNode'' = Some f"
    and "mUserData dso = Some ctx"
    and "f [ctx, PyInt (sint i)] = Some (PyUnicode s)"
    and "list_all (\<lambda>c. of_char c < (128 :: nat)) s"
    and "AiNodeLookUpByName e (Some s) = Some node"
  shows "\<exists>w'. getNode e dso i w = Returns (Some node) w' \<and> logged MsgError w w'"
  using assms
  unfolding getNode_def logged_def
  by (simp add: prog_defs api_defs)

text \<open>
  Claim C4 fails on the code. When the script's \<^verbatim>\<open>GetNode\<close> returns a Unicode object (which
  is no string object) whose text names a node of the registry, \<^verbatim>\<open>getNode\<close> logs the error
  about the return value and goes on to look the name up: it returns the handle of that node
  and not null.
\<close>

theorem getNode_unicode_name_resolves:
  "mModule dso = Some m \<and> m ''GetNode'' = Some f \<and> mUserData dso = Some ctx \<and>
   f [ctx, PyInt (sint i)] = Some (PyUnicode s) \<and>
   list_all (\<lambda>c. of_char c < (128 :: nat)) s \<and>
   AiNodeLookUpByName e (Some s) = Some node \<longrightarrow>
     (\<exists>w'. getNode e dso i w = Returns (Some node) w' \<and> logged MsgError w w')"
  using getNode_unicode [of dso m f ctx i s e node w] by blast

text \<open>The script returns \<^verbatim>\<open>u"A"\<close> and the registry holds the node \<^verbatim>\<open>A\<close> under the handle \<open>1\<close>.\<close>

theorem getNode_unicode_name_resolves_witness:
  "\<exists>w'. getNode ex_env ex_loaded_dso 0 ex_world = Returns (Some 1) w' \<and>
        logged MsgError ex_world w'"
  using getNode_unicode_name_resolves [of ex_loaded_dso ex_unicode_stub
      "\<lambda>args. Some (PyUnicode ''A'')" "PyOpaque 7" 0 "''A''" ex_env 1 ex_world]
  by (simp add: ex_loaded_dso_def ex_unicode_stub_def ex_dso_def ex_env_def)

lemma PythonDso_new_not_found:
  assumes "\<not> stat_isreg e script"
    and "findInPath e fuel procedural_path script = Some None"
  shows \<open>PythonDso_new e fuel node_name script procedural_path verbose w =
     Returns \<lparr>mProcName = node_name, mScript = [], mModule = None, mUserData = None,
              mVerbose = verbose\<rparr>
       (w\<lparr>trace := trace w @
            (if verbose
             then [AiMsg MsgInfo
                     ''[pyproc] Search python procedural in options.procedural_searchpath...'']
             else []) @
            [AiMsg MsgWarning ''[pyproc] Python procedural '%s' not found in path'']\<rparr>)\<close>
  using assms
  by (simp add: PythonDso_new_def run_findInPath_def prog_defs)

text \<open>
  Claim C6 fails on the code in its last part. When the script locator is no regular file
  and the search path yields no match, \<^verbatim>\<open>PYPROC_INIT\<close> logs the warning, returns \<open>0\<close>, leaves
  the renderer's slot as it was and does not call \<^verbatim>\<open>init\<close> (the trace grows by the
  constructor's messages only); but the invalid bridge it built with \<^verbatim>\<open>new\<close> is still
  allocated at the return, and its address was stored nowhere.
\<close>

theorem PYPROC_INIT_keeps_invalid_bridge:
  \<open>runtime_initialized w \<and> AiUniverseGetOptions e = Some opts \<and>
   \<not> stat_isreg e (script_of e node) \<and>
   findInPath e fuel (procedural_path_of e opts) (script_of e node) = Some None \<longrightarrow>
     (\<exists>w'. PYPROC_INIT e fuel node user_ptr w = Returns (0, user_ptr) w' \<and>
        trace w' = trace w @
          (if verbose_of node
           then [AiMsg MsgInfo
                   ''[pyproc] Search python procedural in options.procedural_searchpath...'']
           else []) @
          [AiMsg MsgWarning ''[pyproc] Python procedural '%s' not found in path''] \<and>
        heap w' (next_ptr w) =
          Some \<lparr>mProcName = param_name node, mScript = [], mModule = None, mUserData = None,
                mVerbose = verbose_of node\<rparr> \<and>
        (\<forall>p. p \<noteq> next_ptr w \<longrightarrow> heap w' p = heap w p))\<close>
proof
  assume a: "runtime_initialized w \<and> AiUniverseGetOptions e = Some opts \<and>
   \<not> stat_isreg e (script_of e node) \<and>
   findInPath e fuel (procedural_path_of e opts) (script_of e node) = Some None"
  then have new: \<open>PythonDso_new e fuel (param_name node) (script_of e node)
      (procedural_path_of e opts) (verbose_of node) w =
     Returns \<lparr>mProcName = param_name node, mScript = [], mModule = None, mUserData = None,
              mVerbose = verbose_of node\<rparr>
       (w\<lparr>trace := trace w @
            (if verbose_of node
             then [AiMsg MsgInfo
                     ''[pyproc] Search python procedural in options.procedural_searchpath...'']
             else []) @
            [AiMsg MsgWarning ''[pyproc] Python procedural '%s' not found in path'']\<rparr>)\<close>
    by (intro PythonDso_new_not_found) auto
  show \<open>\<exists>w'. PYPROC_INIT e fuel node user_ptr w = Returns (0, user_ptr) w' \<and>
        trace w' = trace w @
          (if verbose_of node
           then [AiMsg MsgInfo
                   ''[pyproc] Search python procedural in options.procedural_searchpath...'']
           else []) @
          [AiMsg MsgWarning ''[pyproc] Python procedural '%s' not found in path''] \<and>
        heap w' (next_ptr w) =
          Some \<lparr>mProcName = param_name node, mScript = [], mModule = None, mUserData = None,
                mVerbose = verbose_of node\<rparr> \<and>
        (\<forall>p. p \<noteq> next_ptr w \<longrightarrow> heap w' p = heap w p)\<close>
    using a new
    by (simp add: PYPROC_INIT_def new_PythonDso_def valid_def prog_defs)
qed

text \<open>
  The specification's scenario: the search path \<^verbatim>\<open>/plugins:/missing:[ENVX]\<close> with \<^verbatim>\<open>ENVX\<close>
  unset, and a script that is in no directory.
\<close>

lemma ex_missing_not_found:
  "findInPath ex_missing_env (Suc 0) (procedural_path_of ex_missing_env
      \<lparr>plugin_searchpath = ''/plugins'', procedural_searchpath = ''/missing:[ENVX]''\<rparr>)
      (script_of ex_missing_env ex_missing_node) = Some None"
  by (simp add: findInPath_def findInPath_from_segments split_path.simps is_env_segment_def
      env_name_def script_of_def procedural_path_of_def gsPathSep_def stat_isreg_def
      ex_missing_env_def ex_env_def ex_missing_node_def)

theorem PYPROC_INIT_keeps_invalid_bridge_witness:
  \<open>\<exists>w'. PYPROC_INIT ex_missing_env (Suc 0) ex_missing_node None ex_world = Returns (0, None) w' \<and>
        trace w' = [AiMsg MsgWarning ''[pyproc] Python procedural '%s' not found in path''] \<and>
        heap w' 0 = Some (ex_dso\<lparr>mScript := []\<rparr>) \<and>
        \<not> valid (ex_dso\<lparr>mScript := []\<rparr>)\<close>
  using PYPROC_INIT_keeps_invalid_bridge [of ex_world ex_missing_env
      "\<lparr>plugin_searchpath = ''/plugins'', procedural_searchpath = ''/missing:[ENVX]''\<rparr>"
      ex_missing_node "Suc 0" None] ex_missing_not_found
  by (auto simp: ex_world_def ex_missing_env_def ex_env_def ex_missing_node_def ex_dso_def
      script_of_def verbose_of_def valid_def stat_isreg_def)

end
